theory Spec2Isabelle
  imports Complex_Main
begin

section \<open>JavaScript numbers\<close>

text \<open>
  The calculators of the dashboard work on JavaScript numbers. Finite numbers are
  modelled as reals, so sums, differences and products of finite numbers are exact:
  the rounding and the overflow of IEEE doubles are outside the model, and there is
  one zero (no \<open>-0\<close>). What the code can produce beyond the finite numbers is kept:
  a division by zero gives \<open>Infinity\<close>, \<open>-Infinity\<close> or \<open>NaN\<close> and every
  comparison with \<open>NaN\<close> is false, so the \<open>else\<close> branch of a chain of
  comparisons is taken where the source takes it.
\<close>

datatype jsnum = Fin real | PInf | NInf | NaN

definition inf_of_sign :: "real \<Rightarrow> jsnum" where
  "inf_of_sign s = (if 0 < s then PInf else if s < 0 then NInf else NaN)"

fun js_neg :: "jsnum \<Rightarrow> jsnum" where
  "js_neg (Fin a) = Fin (- a)"
| "js_neg PInf = NInf"
| "js_neg NInf = PInf"
| "js_neg NaN = NaN"

fun js_add :: "jsnum \<Rightarrow> jsnum \<Rightarrow> jsnum" where
  "js_add (Fin a) (Fin b) = Fin (a + b)"
| "js_add NaN y = NaN"
| "js_add x NaN = NaN"
| "js_add PInf NInf = NaN"
| "js_add NInf PInf = NaN"
| "js_add PInf y = PInf"
| "js_add NInf y = NInf"
| "js_add x PInf = PInf"
| "js_add x NInf = NInf"

definition js_sub :: "jsnum \<Rightarrow> jsnum \<Rightarrow> jsnum" where
  "js_sub x y = js_add x (js_neg y)"

fun js_mul :: "jsnum \<Rightarrow> jsnum \<Rightarrow> jsnum" where
  "js_mul (Fin a) (Fin b) = Fin (a * b)"
| "js_mul NaN y = NaN"
| "js_mul x NaN = NaN"
| "js_mul (Fin a) PInf = inf_of_sign a"
| "js_mul (Fin a) NInf = inf_of_sign (- a)"
| "js_mul PInf (Fin b) = inf_of_sign b"
| "js_mul NInf (Fin b) = inf_of_sign (- b)"
| "js_mul PInf PInf = PInf"
| "js_mul PInf NInf = NInf"
| "js_mul NInf PInf = NInf"
| "js_mul NInf NInf = PInf"

fun js_div :: "jsnum \<Rightarrow> jsnum \<Rightarrow> jsnum" where
  "js_div (Fin a) (Fin b) = (if b = 0 then inf_of_sign a else Fin (a / b))"
| "js_div NaN y = NaN"
| "js_div x NaN = NaN"
| "js_div (Fin a) PInf = Fin 0"
| "js_div (Fin a) NInf = Fin 0"
| "js_div PInf (Fin b) = (if 0 \<le> b then PInf else NInf)"
| "js_div NInf (Fin b) = (if 0 \<le> b then NInf else PInf)"
| "js_div PInf PInf = NaN"
| "js_div PInf NInf = NaN"
| "js_div NInf PInf = NaN"
| "js_div NInf NInf = NaN"

fun js_lt :: "jsnum \<Rightarrow> jsnum \<Rightarrow> bool" where
  "js_lt (Fin a) (Fin b) = (a < b)"
| "js_lt NaN y = False"
| "js_lt x NaN = False"
| "js_lt PInf y = False"
| "js_lt x NInf = False"
| "js_lt x y = True"

fun js_le :: "jsnum \<Rightarrow> jsnum \<Rightarrow> bool" where
  "js_le (Fin a) (Fin b) = (a \<le> b)"
| "js_le NaN y = False"
| "js_le x NaN = False"
| "js_le NInf y = True"
| "js_le x PInf = True"
| "js_le x y = False"

definition js_gt :: "jsnum \<Rightarrow> jsnum \<Rightarrow> bool" where
  "js_gt x y = js_lt y x"

definition js_ge :: "jsnum \<Rightarrow> jsnum \<Rightarrow> bool" where
  "js_ge x y = js_le y x"

text \<open>\<open>Math.round\<close> on a finite number: the nearest integer, a tie going up.\<close>

definition Math_round :: "real \<Rightarrow> real" where
  "Math_round x = real_of_int \<lfloor>x + 1 / 2\<rfloor>"

text \<open>
  Numbers are turned into text by the JavaScript runtime (\<open>Number.prototype.toFixed\<close>,
  \<open>toLocaleString\<close> and the conversion inside a template literal); none of that
  code is in the repository. A text built by a template literal is therefore kept as the
  list of its pieces, in order: the literal parts, and for each number the rendering
  that the source asks for, left symbolic.
\<close>

datatype piece =
    Lit string
  | ToFixed jsnum nat
  | ToLocaleString jsnum
  | ToString jsnum

type_synonym template = "piece list"

section \<open>ScoreCalculator: \<open>calculateFinancialScore\<close> of the financial-assessment function\<close>

datatype risk_level = low | medium | high

record AssessmentRequest =
  monthlyIncome :: real
  monthlyExpenses :: real
  totalDebt :: real
  savingsAmount :: real
  emergencyFundMonths :: real
  shortTermGoals :: string
  longTermGoals :: string
  riskTolerance :: risk_level

datatype category = poor | fair | good | excellent

record AssessmentResult =
  score :: real
  category :: category
  riskAreas :: "template list"
  recommendations :: "string list"
  strengths :: "template list"

record scores =
  savingsRate :: real
  debtManagement :: real
  emergencyFund :: real
  expenseManagement :: real
  goalPlanning :: real

text \<open>A JavaScript string is truthy exactly when it is not empty.\<close>

definition truthy :: "string \<Rightarrow> bool" where
  "truthy s = (s \<noteq> [])"

text \<open>The five blocks that fill the \<open>scores\<close> object, each an \<open>if\<close> chain of the source.\<close>

definition savingsRate_points :: "jsnum \<Rightarrow> real" where
  "savingsRate_points savingsRate' =
     (if js_ge savingsRate' (Fin 0.25) then 25
      else if js_ge savingsRate' (Fin 0.20) then 22
      else if js_ge savingsRate' (Fin 0.15) then 20
      else if js_ge savingsRate' (Fin 0.10) then 15
      else if js_ge savingsRate' (Fin 0.05) then 10
      else if js_gt savingsRate' (Fin 0) then 5
      else 0)"

definition debtManagement_points :: "jsnum \<Rightarrow> real" where
  "debtManagement_points debtToIncomeRatio =
     (if js_le debtToIncomeRatio (Fin 0.3) then 25
      else if js_le debtToIncomeRatio (Fin 0.5) then 20
      else if js_le debtToIncomeRatio (Fin 0.7) then 15
      else if js_le debtToIncomeRatio (Fin 1.0) then 10
      else 5)"

definition emergencyFund_points :: "real \<Rightarrow> real" where
  "emergencyFund_points months =
     (if months \<ge> 6 then 20
      else if months \<ge> 4 then 16
      else if months \<ge> 3 then 12
      else if months \<ge> 1 then 8
      else if months > 0 then 4
      else 0)"

definition expenseManagement_points :: "jsnum \<Rightarrow> real" where
  "expenseManagement_points expenseRatio =
     (if js_le expenseRatio (Fin 0.5) then 15
      else if js_le expenseRatio (Fin 0.65) then 12
      else if js_le expenseRatio (Fin 0.75) then 10
      else if js_le expenseRatio (Fin 0.85) then 7
      else 3)"

definition goalPlanning_points :: "string \<Rightarrow> string \<Rightarrow> real" where
  "goalPlanning_points shortGoals longGoals =
     (if truthy shortGoals \<and> truthy longGoals then 15
      else if truthy shortGoals \<or> truthy longGoals then 8
      else 0)"

definition compute_scores :: "AssessmentRequest \<Rightarrow> scores" where
  "compute_scores data =
     (let savingsRate' = js_div (Fin (monthlyIncome data - monthlyExpenses data)) (Fin (monthlyIncome data));
          annualIncome = monthlyIncome data * 12;
          debtToIncomeRatio = js_div (Fin (totalDebt data)) (Fin annualIncome);
          expenseRatio = js_div (Fin (monthlyExpenses data)) (Fin (monthlyIncome data))
      in \<lparr> savingsRate = savingsRate_points savingsRate',
           debtManagement = debtManagement_points debtToIncomeRatio,
           emergencyFund = emergencyFund_points (emergencyFundMonths data),
           expenseManagement = expenseManagement_points expenseRatio,
           goalPlanning = goalPlanning_points (shortTermGoals data) (longTermGoals data) \<rparr>)"

definition totalScore :: "scores \<Rightarrow> real" where
  "totalScore s =
     Math_round (savingsRate s + debtManagement s + emergencyFund s + expenseManagement s + goalPlanning s)"

definition category_of :: "real \<Rightarrow> category" where
  "category_of totalScore' =
     (if totalScore' \<ge> 80 then excellent
      else if totalScore' \<ge> 60 then good
      else if totalScore' \<ge> 40 then fair
      else poor)"

text \<open>The pushes onto \<open>riskAreas\<close> and \<open>strengths\<close>, in the order of the source.\<close>

definition pct1 :: "jsnum \<Rightarrow> piece" where
  "pct1 ratio = ToFixed (js_mul ratio (Fin 100)) 1"

definition riskAreas_of :: "AssessmentRequest \<Rightarrow> jsnum \<Rightarrow> jsnum \<Rightarrow> template list" where
  "riskAreas_of data savingsRate' debtToIncomeRatio =
     (if js_lt savingsRate' (Fin 0.05)
        then [[Lit ''Very low savings rate - you're spending most or all of your income'']]
      else if js_lt savingsRate' (Fin 0.10)
        then [[Lit ''Low savings rate - consider increasing your monthly savings'']]
      else [])
   @ (if js_gt debtToIncomeRatio (Fin 1.0)
        then [[Lit ''High debt-to-income ratio of '', pct1 debtToIncomeRatio,
               Lit ''% - debt exceeds annual income'']]
      else if js_gt debtToIncomeRatio (Fin 0.7)
        then [[Lit ''Elevated debt-to-income ratio of '', pct1 debtToIncomeRatio,
               Lit ''% - consider debt reduction strategy'']]
      else [])
   @ (if emergencyFundMonths data < 3
        then [[Lit ''Insufficient emergency fund - you have coverage for only '',
               ToFixed (Fin (emergencyFundMonths data)) 1, Lit '' months of expenses'']]
      else [])
   @ (if monthlyExpenses data > monthlyIncome data
        then [[Lit ''Monthly expenses exceed income - you're running a deficit'']]
      else if js_gt (js_div (Fin (monthlyExpenses data)) (Fin (monthlyIncome data))) (Fin 0.85)
        then [[Lit ''Expenses are consuming over 85% of income - limited flexibility for emergencies'']]
      else [])"

definition strengths_of :: "AssessmentRequest \<Rightarrow> jsnum \<Rightarrow> jsnum \<Rightarrow> template list" where
  "strengths_of data savingsRate' debtToIncomeRatio =
     (if js_lt savingsRate' (Fin 0.05) then []
      else if js_lt savingsRate' (Fin 0.10) then []
      else [[Lit ''Healthy savings rate of '', pct1 savingsRate', Lit ''%'']])
   @ (if js_gt debtToIncomeRatio (Fin 1.0) then []
      else if js_gt debtToIncomeRatio (Fin 0.7) then []
      else if js_le debtToIncomeRatio (Fin 0.3)
        then [[Lit ''Excellent debt management with a '', pct1 debtToIncomeRatio,
               Lit ''% debt-to-income ratio'']]
      else [])
   @ (if emergencyFundMonths data < 3 then []
      else if emergencyFundMonths data \<ge> 6
        then [[Lit ''Strong emergency fund with '', ToFixed (Fin (emergencyFundMonths data)) 1,
               Lit '' months of coverage'']]
      else [])"

definition recommendations_of :: "AssessmentRequest \<Rightarrow> jsnum \<Rightarrow> jsnum \<Rightarrow> string list" where
  "recommendations_of data savingsRate' debtToIncomeRatio =
     (if js_lt savingsRate' (Fin 0.10)
        then [''Increase your monthly savings to at least 10% of income. Review expenses and identify areas to reduce.'']
      else [])
   @ (if js_gt debtToIncomeRatio (Fin 0.5)
        then [''Create a debt reduction strategy. Focus on paying down high-interest debt first (credit cards, personal loans).'']
      else [])
   @ (if emergencyFundMonths data < 3
        then [''Build an emergency fund covering 3-6 months of expenses. Set up automatic monthly transfers to savings.'']
      else [])
   @ (if monthlyExpenses data > monthlyIncome data * 0.85
        then [''Review and reduce discretionary spending. Create a detailed budget tracking each expense category.'']
      else [])
   @ (if truthy (shortTermGoals data) \<or> truthy (longTermGoals data)
        then [''Create a timeline and savings plan for your goals. Break long-term goals into smaller milestones.'']
      else [''Define clear short and long-term financial goals. Having specific targets helps motivate saving and investing.''])
   @ (if savingsAmount data > 0
        then [''Consider diversifying your savings across high-yield savings accounts and appropriate investments based on your risk tolerance.'']
      else [])"

definition calculateFinancialScore :: "AssessmentRequest \<Rightarrow> AssessmentResult" where
  "calculateFinancialScore data =
     (let savingsRate' = js_div (Fin (monthlyIncome data - monthlyExpenses data)) (Fin (monthlyIncome data));
          debtToIncomeRatio = js_div (Fin (totalDebt data)) (Fin (monthlyIncome data * 12));
          totalScore' = totalScore (compute_scores data)
      in \<lparr> score = totalScore',
           category = category_of totalScore',
           riskAreas = riskAreas_of data savingsRate' debtToIncomeRatio,
           recommendations = recommendations_of data savingsRate' debtToIncomeRatio,
           strengths = strengths_of data savingsRate' debtToIncomeRatio \<rparr>)"

section \<open>The financial-assessment request handler\<close>

text \<open>
  The handler answers an \<open>OPTIONS\<close> request with an empty 200 response. Otherwise it
  parses the body (\<open>req.json()\<close> rejects with a message when the body is not JSON,
  which the \<open>catch\<close> turns into a 500 response), refuses a body whose
  \<open>monthlyIncome\<close>, \<open>shortTermGoals\<close> or \<open>longTermGoals\<close> is falsy with a 400
  response, and answers every other body with the result of \<open>calculateFinancialScore\<close>.
  A number is falsy when it is zero, a string when it is empty. A parsed body is taken to
  have the fields of \<open>AssessmentRequest\<close> with their declared types.
\<close>

record Request =
  "method" :: string
  json :: "string + AssessmentRequest"

datatype response_body =
    NoBody
  | ErrorBody string
  | ErrorDetails string string
  | ResultBody AssessmentResult

record Response =
  status :: nat
  body :: response_body

definition serve :: "Request \<Rightarrow> Response" where
  "serve req =
     (if method req = ''OPTIONS'' then \<lparr> status = 200, body = NoBody \<rparr>
      else case json req of
        Inl message \<Rightarrow>
          \<lparr> status = 500, body = ErrorDetails ''Failed to process assessment'' message \<rparr>
      | Inr data \<Rightarrow>
          if monthlyIncome data = 0 \<or> \<not> truthy (shortTermGoals data) \<or> \<not> truthy (longTermGoals data)
          then \<lparr> status = 400, body = ErrorBody ''Missing required fields'' \<rparr>
          else \<lparr> status = 200, body = ResultBody (calculateFinancialScore data) \<rparr>)"

text \<open>Whether a response carries a score and a category.\<close>

fun assessment_of :: "Response \<Rightarrow> AssessmentResult option" where
  "assessment_of r = (case body r of ResultBody a \<Rightarrow> Some a | _ \<Rightarrow> None)"

section \<open>GoalPlanProjector: \<open>generateMockFinancialPlan\<close>\<close>

datatype goal = retirement | home | education | wealth

datatype risk_tier = Conservative | Moderate | Aggressive

fun goal_name :: "goal \<Rightarrow> string" where
  "goal_name retirement = ''retirement''"
| "goal_name home = ''home''"
| "goal_name education = ''education''"
| "goal_name wealth = ''wealth''"

fun tier_name :: "risk_tier \<Rightarrow> string" where
  "tier_name Conservative = ''conservative''"
| "tier_name Moderate = ''moderate''"
| "tier_name Aggressive = ''aggressive''"

record FinancialPlanRequest =
  age :: real
  income :: real
  currentSavings :: real
  targetGoal :: goal
  targetAmount :: real
  timeHorizon :: real
  riskTolerance :: risk_tier

record MonthlyPlan =
  month :: nat
  savings :: jsnum
  investments :: jsnum
  total :: jsnum
  milestone :: template

record FinancialPlan =
  summary :: template
  monthlyPlans :: "MonthlyPlan list"
  recommendations :: "string list"
  milestones :: "template list"

definition monthlySavings_of :: "FinancialPlanRequest \<Rightarrow> jsnum" where
  "monthlySavings_of request =
     js_div (Fin (targetAmount request - currentSavings request)) (Fin (timeHorizon request * 12))"

text \<open>The object pushed for one month. \<open>month\<close> is a positive whole number, so
  \<open>month % 12 === 0\<close> and \<open>Math.floor(month / 12)\<close> are \<open>mod\<close> and \<open>div\<close>.
  The products are the exact ones: where a factor such as 0.6, 0.4 or 1.005 is not a binary
  fraction, the double the code computes can differ from the field of the model in its last
  digits (the code's \<open>investments\<close> of month 120 for a monthly saving of 1000 is
  48239.99999999999, the exact product is 48240). The theorems below state the value of a
  field only where the code's doubles give that same number (1000 * 0.6 and 1000 * 0.4
  round to 600 and 400), and otherwise an order between fields, which rounding keeps.\<close>

definition plan_point :: "FinancialPlanRequest \<Rightarrow> jsnum \<Rightarrow> nat \<Rightarrow> MonthlyPlan" where
  "plan_point request monthlySavings month' =
     (let savings' = js_mul monthlySavings (Fin 0.6);
          investments' = js_mul monthlySavings (Fin 0.4)
      in \<lparr> month = month',
           savings = js_mul savings' (Fin (real month')),
           investments =
             js_mul (js_mul investments' (Fin (real month')))
               (Fin (1 + (if FinancialPlanRequest.riskTolerance request = Aggressive then 0.01 else 0.005))),
           total =
             js_add (js_add (Fin (currentSavings request)) (js_mul savings' (Fin (real month'))))
               (js_mul investments' (Fin (real month'))),
           milestone =
             (if month' mod 12 = 0
              then [Lit ''Year '', ToString (Fin (real (month' div 12))), Lit '' milestone'']
              else []) \<rparr>)"

text \<open>The loop \<open>for (let month = 1; month <= request.timeHorizon * 12; month++)\<close>.\<close>

function plan_loop :: "FinancialPlanRequest \<Rightarrow> jsnum \<Rightarrow> nat \<Rightarrow> MonthlyPlan list \<Rightarrow> MonthlyPlan list" where
  "plan_loop request monthlySavings month' plans =
     (if real month' \<le> timeHorizon request * 12
      then plan_loop request monthlySavings (Suc month') (plans @ [plan_point request monthlySavings month'])
      else plans)"
  by pat_completeness auto
termination
proof (relation "measure (\<lambda>(request, monthlySavings, month', plans).
                    nat \<lfloor>timeHorizon request * 12\<rfloor> + 1 - month')")
  show "wf (measure (\<lambda>(request, monthlySavings, month', plans).
                    nat \<lfloor>timeHorizon request * 12\<rfloor> + 1 - month'))"
    by simp
next
  fix request :: FinancialPlanRequest and monthlySavings :: jsnum and month' :: nat
    and plans :: "MonthlyPlan list"
  assume "real month' \<le> timeHorizon request * 12"
  then have "month' \<le> nat \<lfloor>timeHorizon request * 12\<rfloor>"
    by (simp add: le_nat_floor)
  then show "((request, monthlySavings, Suc month', plans @ [plan_point request monthlySavings month']),
              (request, monthlySavings, month', plans))
             \<in> measure (\<lambda>(request, monthlySavings, month', plans).
                    nat \<lfloor>timeHorizon request * 12\<rfloor> + 1 - month')"
    by simp
qed

declare plan_loop.simps [simp del]

definition generateMockFinancialPlan :: "FinancialPlanRequest \<Rightarrow> FinancialPlan" where
  "generateMockFinancialPlan request =
     (let monthlySavings = monthlySavings_of request
      in \<lparr> summary =
             [Lit ''Based on your goal to '', Lit (goal_name (targetGoal request)),
              Lit '' with a target of $'', ToLocaleString (Fin (targetAmount request)),
              Lit '' in '', ToString (Fin (timeHorizon request)),
              Lit '' years, we recommend a '',
              Lit (tier_name (FinancialPlanRequest.riskTolerance request)),
              Lit '' investment strategy with monthly savings of $'',
              ToFixed monthlySavings 2, Lit ''.''],
           monthlyPlans = plan_loop request monthlySavings 1 [],
           recommendations =
             [''Automate monthly savings transfers'',
              ''Diversify investments based on risk tolerance'',
              ''Review and adjust plan quarterly'',
              ''Consider tax-advantaged accounts''],
           milestones =
             [[Lit ''Month 12: Reach $'',
               ToFixed (js_add (Fin (currentSavings request)) (js_mul monthlySavings (Fin 12))) 0],
              [Lit ''Month 24: Reach $'',
               ToFixed (js_add (Fin (currentSavings request)) (js_mul monthlySavings (Fin 24))) 0],
              [Lit ''Month '', ToString (Fin (timeHorizon request * 12)),
               Lit '': Achieve target of $'', ToLocaleString (Fin (targetAmount request))]] \<rparr>)"

section \<open>ScenarioProjector: the investment scenario simulator\<close>

text \<open>
  \<open>Math.pow\<close>, as the language defines it, on the numbers of this model. A negative
  base with a fractional exponent gives \<open>NaN\<close>.
\<close>

definition is_integer :: "real \<Rightarrow> bool" where
  "is_integer y = (real_of_int \<lfloor>y\<rfloor> = y)"

definition is_odd_integer :: "real \<Rightarrow> bool" where
  "is_odd_integer y = (is_integer y \<and> odd \<lfloor>y\<rfloor>)"

fun Math_pow :: "jsnum \<Rightarrow> jsnum \<Rightarrow> jsnum" where
  "Math_pow x NaN = NaN"
| "Math_pow x (Fin y) =
     (if y = 0 then Fin 1
      else case x of
        NaN \<Rightarrow> NaN
      | PInf \<Rightarrow> (if 0 < y then PInf else Fin 0)
      | NInf \<Rightarrow> (if 0 < y then (if is_odd_integer y then NInf else PInf) else Fin 0)
      | Fin a \<Rightarrow>
          (if a = 0 then (if 0 < y then Fin 0 else PInf)
           else if 0 < a then Fin (a powr y)
           else if is_integer y then Fin (a powi \<lfloor>y\<rfloor>)
           else NaN))"
| "Math_pow x PInf =
     (case x of
        NaN \<Rightarrow> NaN
      | PInf \<Rightarrow> PInf
      | NInf \<Rightarrow> PInf
      | Fin a \<Rightarrow> (if 1 < \<bar>a\<bar> then PInf else if \<bar>a\<bar> = 1 then NaN else Fin 0))"
| "Math_pow x NInf =
     (case x of
        NaN \<Rightarrow> NaN
      | PInf \<Rightarrow> Fin 0
      | NInf \<Rightarrow> Fin 0
      | Fin a \<Rightarrow> (if 1 < \<bar>a\<bar> then Fin 0 else if \<bar>a\<bar> = 1 then NaN else PInf))"

record Assumptions =
  annualReturn :: real
  volatility :: real
  maxDrawdown :: real
  description :: string

fun FINANCIAL_ASSUMPTIONS :: "risk_tier \<Rightarrow> Assumptions" where
  "FINANCIAL_ASSUMPTIONS Conservative =
     \<lparr> annualReturn = 0.05, volatility = 0.08, maxDrawdown = 0.15,
       description = ''Bonds, CDs, Money Market Funds'' \<rparr>"
| "FINANCIAL_ASSUMPTIONS Moderate =
     \<lparr> annualReturn = 0.08, volatility = 0.12, maxDrawdown = 0.25,
       description = ''Balanced Portfolio (60% Stocks, 40% Bonds)'' \<rparr>"
| "FINANCIAL_ASSUMPTIONS Aggressive =
     \<lparr> annualReturn = 0.11, volatility = 0.18, maxDrawdown = 0.40,
       description = ''Growth Stocks, Equity Funds, Real Estate'' \<rparr>"

record ProjectionData =
  year :: nat
  conservative :: real
  moderate :: real
  aggressive :: real

text \<open>
  \<open>Math.random()\<close> is the only effect of the simulator. A run is given the sequence of
  numbers the generator will return, \<open>random k\<close> being its \<open>k\<close>-th draw, and the
  state threaded through the code is the number of draws made so far.
\<close>

record Balances =
  conservativeValue :: real
  moderateValue :: real
  aggressiveValue :: real
  draws :: nat

text \<open>One pass of the inner loop: the contribution is added to the three balances, then
  three draws are made, in the order conservative, moderate, aggressive.\<close>

definition month_step :: "(nat \<Rightarrow> real) \<Rightarrow> real \<Rightarrow> real \<Rightarrow> real \<Rightarrow> Balances \<Rightarrow> Balances" where
  "month_step random monthlyReturn monthlyVolatility monthlyContribution b =
     (let c = conservativeValue b + monthlyContribution;
          m = moderateValue b + monthlyContribution;
          a = aggressiveValue b + monthlyContribution;
          conservativeReturn = monthlyReturn + (random (draws b) - 0.5) * monthlyVolatility * 0.5;
          moderateReturn = monthlyReturn + (random (draws b + 1) - 0.5) * monthlyVolatility * 0.5;
          aggressiveReturn = monthlyReturn + (random (draws b + 2) - 0.5) * monthlyVolatility * 0.5
      in \<lparr> conservativeValue = c * (1 + conservativeReturn),
           moderateValue = m * (1 + moderateReturn),
           aggressiveValue = a * (1 + aggressiveReturn),
           draws = draws b + 3 \<rparr>)"

text \<open>The loop \<open>for (let month = 0; month < 12; month++)\<close>.\<close>

function month_loop :: "(nat \<Rightarrow> real) \<Rightarrow> real \<Rightarrow> real \<Rightarrow> real \<Rightarrow> nat \<Rightarrow> Balances \<Rightarrow> Balances" where
  "month_loop random monthlyReturn monthlyVolatility monthlyContribution month' b =
     (if month' < 12
      then month_loop random monthlyReturn monthlyVolatility monthlyContribution (Suc month')
             (month_step random monthlyReturn monthlyVolatility monthlyContribution b)
      else b)"
  by pat_completeness auto
termination
  by (relation "measure (\<lambda>(random, monthlyReturn, monthlyVolatility, monthlyContribution, month', b).
                  12 - month')") auto

declare month_loop.simps [simp del]

text \<open>The loop \<open>for (let year = 0; year <= duration; year++)\<close>: year 0 pushes the
  balances as they are and continues; every later year runs the twelve months and pushes
  the rounded balances.\<close>

function year_loop ::
  "(nat \<Rightarrow> real) \<Rightarrow> real \<Rightarrow> real \<Rightarrow> real \<Rightarrow> real \<Rightarrow> nat \<Rightarrow> Balances \<Rightarrow> ProjectionData list
     \<Rightarrow> ProjectionData list \<times> nat" where
  "year_loop random monthlyReturn monthlyVolatility monthlyContribution duration year' b projections =
     (if real year' \<le> duration
      then
        (if year' = 0
         then year_loop random monthlyReturn monthlyVolatility monthlyContribution duration (Suc year') b
                (projections @ [\<lparr> year = year', conservative = conservativeValue b,
                                  moderate = moderateValue b, aggressive = aggressiveValue b \<rparr>])
         else
           (let b' = month_loop random monthlyReturn monthlyVolatility monthlyContribution 0 b
            in year_loop random monthlyReturn monthlyVolatility monthlyContribution duration (Suc year') b'
                 (projections @ [\<lparr> year = year', conservative = Math_round (conservativeValue b'),
                                   moderate = Math_round (moderateValue b'),
                                   aggressive = Math_round (aggressiveValue b') \<rparr>])))
      else (projections, draws b))"
  by pat_completeness auto
termination
proof (relation "measure (\<lambda>(random, monthlyReturn, monthlyVolatility, monthlyContribution,
                            duration, year', b, projections). nat \<lfloor>duration\<rfloor> + 1 - year')")
  show "wf (measure (\<lambda>(random, monthlyReturn, monthlyVolatility, monthlyContribution,
                            duration, year', b, projections). nat \<lfloor>duration\<rfloor> + 1 - year'))"
    by simp
next
  fix random :: "nat \<Rightarrow> real" and monthlyReturn monthlyVolatility monthlyContribution duration :: real
    and year' :: nat and b :: Balances and projections :: "ProjectionData list"
  assume "real year' \<le> duration" and "year' = 0"
  then have "year' \<le> nat \<lfloor>duration\<rfloor>"
    by (simp add: le_nat_floor)
  then show "((random, monthlyReturn, monthlyVolatility, monthlyContribution, duration, Suc year', b,
               projections @ [\<lparr> year = year', conservative = conservativeValue b,
                                 moderate = moderateValue b, aggressive = aggressiveValue b \<rparr>]),
              (random, monthlyReturn, monthlyVolatility, monthlyContribution, duration, year', b, projections))
             \<in> measure (\<lambda>(random, monthlyReturn, monthlyVolatility, monthlyContribution,
                            duration, year', b, projections). nat \<lfloor>duration\<rfloor> + 1 - year')"
    by simp
next
  fix random :: "nat \<Rightarrow> real" and monthlyReturn monthlyVolatility monthlyContribution duration :: real
    and year' :: nat and b b' :: Balances and projections :: "ProjectionData list"
  assume "real year' \<le> duration"
  then have "year' \<le> nat \<lfloor>duration\<rfloor>"
    by (simp add: le_nat_floor)
  then show "((random, monthlyReturn, monthlyVolatility, monthlyContribution, duration, Suc year', b',
               projections @ [\<lparr> year = year', conservative = Math_round (conservativeValue b'),
                                 moderate = Math_round (moderateValue b'),
                                 aggressive = Math_round (aggressiveValue b') \<rparr>]),
              (random, monthlyReturn, monthlyVolatility, monthlyContribution, duration, year', b, projections))
             \<in> measure (\<lambda>(random, monthlyReturn, monthlyVolatility, monthlyContribution,
                            duration, year', b, projections). nat \<lfloor>duration\<rfloor> + 1 - year')"
    by simp
qed

declare year_loop.simps [simp del]

text \<open>\<open>calculateProjection\<close> returns the projections; the model returns with them the
  number of draws made, for the next call.\<close>

definition calculateProjection ::
  "(nat \<Rightarrow> real) \<Rightarrow> nat \<Rightarrow> real \<Rightarrow> real \<Rightarrow> risk_tier \<Rightarrow> real \<Rightarrow> ProjectionData list \<times> nat" where
  "calculateProjection random drawn initialAmount duration scenario monthlyContribution =
     (let assumptions = FINANCIAL_ASSUMPTIONS scenario;
          monthlyReturn = annualReturn assumptions / 12;
          monthlyVolatility = volatility assumptions / sqrt 12
      in year_loop random monthlyReturn monthlyVolatility monthlyContribution duration 0
           \<lparr> conservativeValue = initialAmount, moderateValue = initialAmount,
             aggressiveValue = initialAmount, draws = drawn \<rparr> [])"

datatype js_error = TypeError

text \<open>Reading a property of \<open>xs[i]\<close>: outside the array \<open>xs[i]\<close> is \<open>undefined\<close>
  and the property access throws a \<open>TypeError\<close>.\<close>

definition element :: "'a list \<Rightarrow> int \<Rightarrow> js_error + 'a" where
  "element xs i = (if 0 \<le> i \<and> i < int (length xs) then Inr (xs ! nat i) else Inl TypeError)"

fun tier_field :: "risk_tier \<Rightarrow> ProjectionData \<Rightarrow> real" where
  "tier_field Conservative p = conservative p"
| "tier_field Moderate p = moderate p"
| "tier_field Aggressive p = aggressive p"

record ScenarioResult =
  finalValue :: real
  totalReturn :: real
  annualizedReturn :: jsnum
  maxDrawdown :: real
  volatility :: real

definition calculateScenarioResults ::
  "real \<Rightarrow> ProjectionData list \<Rightarrow> risk_tier \<Rightarrow> js_error + ScenarioResult" where
  "calculateScenarioResults initialAmount projections scenario =
     (case element projections (int (length projections) - 1) of
        Inl e \<Rightarrow> Inl e
      | Inr final \<Rightarrow>
          (let finalValue' = tier_field scenario final;
               totalReturn' = finalValue' - initialAmount;
               annualizedReturn' =
                 js_mul
                   (js_sub
                      (Math_pow (js_div (Fin finalValue') (Fin initialAmount))
                         (js_div (Fin 1) (Fin (real (length projections)))))
                      (Fin 1))
                   (Fin 100);
               assumptions = FINANCIAL_ASSUMPTIONS scenario
           in Inr \<lparr> finalValue = finalValue',
                    totalReturn = totalReturn',
                    annualizedReturn = annualizedReturn',
                    maxDrawdown = Assumptions.maxDrawdown assumptions * 100,
                    volatility = Assumptions.volatility assumptions * 100 \<rparr>))"

record SimulationInputs =
  initialAmount :: real
  duration :: real
  riskTolerance :: risk_tier
  monthlyContribution :: "real option"

record SimulationResults =
  conservative :: ScenarioResult
  moderate :: ScenarioResult
  aggressive :: ScenarioResult
  projections :: "ProjectionData list"

text \<open>\<open>inputs.monthlyContribution || 0\<close>: an absent contribution counts as 0.\<close>

definition or_zero :: "real option \<Rightarrow> real" where
  "or_zero v = (case v of None \<Rightarrow> 0 | Some x \<Rightarrow> if x = 0 then 0 else x)"

definition combined_point ::
  "ProjectionData list \<Rightarrow> ProjectionData list \<Rightarrow> ProjectionData list \<Rightarrow> nat
     \<Rightarrow> js_error + ProjectionData" where
  "combined_point conservativeProjections moderateProjections aggressiveProjections index =
     (case element conservativeProjections (int index) of
        Inl e \<Rightarrow> Inl e
      | Inr c \<Rightarrow>
          (case element moderateProjections (int index) of
             Inl e \<Rightarrow> Inl e
           | Inr m \<Rightarrow>
               (case element aggressiveProjections (int index) of
                  Inl e \<Rightarrow> Inl e
                | Inr a \<Rightarrow>
                    Inr \<lparr> year = index,
                          conservative = ProjectionData.conservative c,
                          moderate = ProjectionData.moderate m,
                          aggressive = ProjectionData.aggressive a \<rparr>)))"

text \<open>A \<open>map\<close> whose callback may throw stops at the first throw.\<close>

fun map_throwing :: "('a \<Rightarrow> js_error + 'b) \<Rightarrow> 'a list \<Rightarrow> js_error + 'b list" where
  "map_throwing f [] = Inr []"
| "map_throwing f (x # xs) =
     (case f x of
        Inl e \<Rightarrow> Inl e
      | Inr y \<Rightarrow> (case map_throwing f xs of Inl e \<Rightarrow> Inl e | Inr ys \<Rightarrow> Inr (y # ys)))"

text \<open>
  The body of the component's \<open>useMemo\<close>: nothing before the simulation was asked for;
  then four calls of \<open>calculateProjection\<close> (the first, for the chosen risk tolerance, is
  not used again but makes its draws), the combined projections and the three results.
\<close>

definition results ::
  "(nat \<Rightarrow> real) \<Rightarrow> bool \<Rightarrow> SimulationInputs \<Rightarrow> js_error + SimulationResults option" where
  "results random hasRunSimulation inputs =
     (if \<not> hasRunSimulation then Inr None
      else
        (let contribution = or_zero (monthlyContribution inputs);
             (projections', d1) =
               calculateProjection random 0 (initialAmount inputs) (duration inputs)
                 (SimulationInputs.riskTolerance inputs) contribution;
             (conservativeProjections, d2) =
               calculateProjection random d1 (initialAmount inputs) (duration inputs) Conservative contribution;
             (moderateProjections, d3) =
               calculateProjection random d2 (initialAmount inputs) (duration inputs) Moderate contribution;
             (aggressiveProjections, d4) =
               calculateProjection random d3 (initialAmount inputs) (duration inputs) Aggressive contribution
         in case map_throwing
                   (combined_point conservativeProjections moderateProjections aggressiveProjections)
                   [0 ..< length conservativeProjections] of
              Inl e \<Rightarrow> Inl e
            | Inr combinedProjections \<Rightarrow>
                (case calculateScenarioResults (initialAmount inputs) conservativeProjections Conservative of
                   Inl e \<Rightarrow> Inl e
                 | Inr c \<Rightarrow>
                     (case calculateScenarioResults (initialAmount inputs) moderateProjections Moderate of
                        Inl e \<Rightarrow> Inl e
                      | Inr m \<Rightarrow>
                          (case calculateScenarioResults (initialAmount inputs) aggressiveProjections Aggressive of
                             Inl e \<Rightarrow> Inl e
                           | Inr a \<Rightarrow>
                               Inr (Some \<lparr> conservative = c, moderate = m, aggressive = a,
                                           projections = combinedProjections \<rparr>))))))"

text \<open>The result of one risk tier in the results of a run.\<close>

fun tier_result :: "risk_tier \<Rightarrow> SimulationResults \<Rightarrow> ScenarioResult" where
  "tier_result Conservative r = SimulationResults.conservative r"
| "tier_result Moderate r = SimulationResults.moderate r"
| "tier_result Aggressive r = SimulationResults.aggressive r"

section \<open>WealthProjector: \<open>calculateRetirementProjection\<close>\<close>

record WealthData =
  age :: real
  retirementAge :: real
  currentIncome :: real
  currentAssets :: real
  currentLiabilities :: real
  monthlySavings :: real
  investmentReturn :: real
  taxBracket :: real
  estateValue :: real
  riskTolerance :: risk_tier

record RetirementProjection =
  age :: real
  savings :: real
  investments :: real
  total :: real

record AssetAllocation =
  category :: string
  percentage :: real
  "value" :: real

text \<open>The inner loop over the twelve months of a year, on the pair of the local
  variables \<open>savings\<close> and \<open>investments\<close>.\<close>

function retirement_month_loop :: "real \<Rightarrow> real \<Rightarrow> nat \<Rightarrow> real \<times> real \<Rightarrow> real \<times> real" where
  "retirement_month_loop monthlySavings' monthlyReturn month' (savings', investments') =
     (if month' < 12
      then
        (let s1 = savings' + monthlySavings';
             i1 = s1 * monthlyReturn;
             s2 = s1 + i1
         in retirement_month_loop monthlySavings' monthlyReturn (Suc month') (s2, i1))
      else (savings', investments'))"
  by pat_completeness auto
termination
  by (relation "measure (\<lambda>(monthlySavings', monthlyReturn, month', p). 12 - month')") auto

declare retirement_month_loop.simps [simp del]

text \<open>The loop \<open>for (let year = 0; year <= yearsToRetirement; year++)\<close>.\<close>

function retirement_year_loop ::
  "WealthData \<Rightarrow> real \<Rightarrow> real \<Rightarrow> nat \<Rightarrow> real \<Rightarrow> RetirementProjection list
     \<Rightarrow> RetirementProjection list" where
  "retirement_year_loop wealthData yearsToRetirement monthlyReturn year' currentSavings' projections' =
     (if real year' \<le> yearsToRetirement
      then
        (let age' = WealthData.age wealthData + real year';
             (savings', investments') =
               retirement_month_loop (monthlySavings wealthData) monthlyReturn 0 (currentSavings', 0)
         in retirement_year_loop wealthData yearsToRetirement monthlyReturn (Suc year') savings'
              (projections' @ [\<lparr> age = age', savings = savings' * 0.6,
                                  investments = savings' * 0.4, total = savings' \<rparr>]))
      else projections')"
  by pat_completeness auto
termination
proof (relation "measure (\<lambda>(wealthData, yearsToRetirement, monthlyReturn, year', currentSavings',
                            projections'). nat \<lfloor>yearsToRetirement\<rfloor> + 1 - year')", goal_cases)
  case 1
  show ?case
    by simp
next
  case (2 wealthData yearsToRetirement monthlyReturn year' currentSavings' projections' age' x savings' investments')
  from \<open>real year' \<le> yearsToRetirement\<close> have "year' \<le> nat \<lfloor>yearsToRetirement\<rfloor>"
    by (simp add: le_nat_floor)
  then show ?case
    by simp
qed

declare retirement_year_loop.simps [simp del]

text \<open>The allocation array, written as in the source: each entry repeats the test of the
  risk tolerance for its percentage and for its factor.\<close>

definition allocation_of :: "WealthData \<Rightarrow> AssetAllocation list" where
  "allocation_of wealthData =
     (let tolerance = WealthData.riskTolerance wealthData;
          net = currentAssets wealthData - currentLiabilities wealthData
      in [\<lparr> category = ''Stocks'',
            percentage = (if tolerance = Aggressive then 80 else if tolerance = Moderate then 60 else 40),
            value = net * (if tolerance = Aggressive then 0.8 else if tolerance = Moderate then 0.6 else 0.4) \<rparr>,
          \<lparr> category = ''Bonds'',
            percentage = (if tolerance = Aggressive then 10 else if tolerance = Moderate then 30 else 50),
            value = net * (if tolerance = Aggressive then 0.1 else if tolerance = Moderate then 0.3 else 0.5) \<rparr>,
          \<lparr> category = ''Real Estate'',
            percentage = 10,
            value = net * 0.1 \<rparr>])"

text \<open>\<open>calculateRetirementProjection\<close> stores the projections and the allocation in the
  component's state; the model returns the two values it stores.\<close>

definition calculateRetirementProjection ::
  "WealthData \<Rightarrow> RetirementProjection list \<times> AssetAllocation list" where
  "calculateRetirementProjection wealthData =
     (let yearsToRetirement = retirementAge wealthData - WealthData.age wealthData;
          monthlyReturn = investmentReturn wealthData / 100 / 12;
          currentSavings' = currentAssets wealthData - currentLiabilities wealthData
      in (retirement_year_loop wealthData yearsToRetirement monthlyReturn 0 currentSavings' [],
          allocation_of wealthData))"

section \<open>Inputs used as examples\<close>

definition example_snapshot :: AssessmentRequest where
  "example_snapshot =
     \<lparr> monthlyIncome = 5000, monthlyExpenses = 3000, totalDebt = 10000, savingsAmount = 5000,
       emergencyFundMonths = 4, shortTermGoals = ''x'', longTermGoals = ''y'',
       riskTolerance = medium \<rparr>"

definition negative_income_snapshot :: AssessmentRequest where
  "negative_income_snapshot =
     \<lparr> monthlyIncome = - 5000, monthlyExpenses = 3000, totalDebt = 10000, savingsAmount = 5000,
       emergencyFundMonths = 4, shortTermGoals = ''x'', longTermGoals = ''y'',
       riskTolerance = medium \<rparr>"

definition zero_income_snapshot :: AssessmentRequest where
  "zero_income_snapshot =
     \<lparr> monthlyIncome = 0, monthlyExpenses = 3000, totalDebt = 10000, savingsAmount = 5000,
       emergencyFundMonths = 4, shortTermGoals = ''x'', longTermGoals = ''y'',
       riskTolerance = medium \<rparr>"

definition post :: "AssessmentRequest \<Rightarrow> Request" where
  "post data = \<lparr> method = ''POST'', json = Inr data \<rparr>"

definition example_goal_request :: FinancialPlanRequest where
  "example_goal_request =
     \<lparr> FinancialPlanRequest.age = 30, income = 60000, currentSavings = 0, targetGoal = retirement,
       targetAmount = 120000, timeHorizon = 10, FinancialPlanRequest.riskTolerance = Moderate \<rparr>"

text \<open>A generator whose every draw is 0.5, so that no month deviates from the mean return.\<close>

definition middle_draws :: "nat \<Rightarrow> real" where
  "middle_draws k = 1 / 2"

definition example_inputs :: SimulationInputs where
  "example_inputs =
     \<lparr> initialAmount = 10000, duration = 1, SimulationInputs.riskTolerance = Moderate,
       monthlyContribution = Some 0 \<rparr>"

definition poorest_snapshot :: AssessmentRequest where
  "poorest_snapshot =
     \<lparr> monthlyIncome = 1000, monthlyExpenses = 2000, totalDebt = 50000, savingsAmount = 0,
       emergencyFundMonths = 0, shortTermGoals = [], longTermGoals = [],
       riskTolerance = low \<rparr>"

text \<open>The values the wealth form starts with.\<close>

definition default_wealthData :: WealthData where
  "default_wealthData =
     \<lparr> WealthData.age = 35, retirementAge = 65, currentIncome = 100000, currentAssets = 250000,
       currentLiabilities = 50000, monthlySavings = 2000, investmentReturn = 7, taxBracket = 22,
       estateValue = 500000, WealthData.riskTolerance = Moderate \<rparr>"

section \<open>ScoreCalculator: the score, its range and its category\<close>

text \<open>
  C1. For the snapshot with income 5000, expenses 3000, debt 10000, savings 5000, an
  emergency fund of 4 months, both goal texts set and medium risk tolerance, the
  sub-scores are 25 (savings rate), 25 (debt management), 16 (emergency fund),
  12 (expense management) and 15 (goal planning), the score is 93 and the category is
  excellent.
\<close>

theorem example_snapshot_score:
  "compute_scores example_snapshot =
     \<lparr> savingsRate = 25, debtManagement = 25, emergencyFund = 16,
       expenseManagement = 12, goalPlanning = 15 \<rparr>
   \<and> score (calculateFinancialScore example_snapshot) = 93
   \<and> AssessmentResult.category (calculateFinancialScore example_snapshot) = excellent"
proof -
  have s: "compute_scores example_snapshot =
     \<lparr> savingsRate = 25, debtManagement = 25, emergencyFund = 16,
       expenseManagement = 12, goalPlanning = 15 \<rparr>"
    by (simp add: compute_scores_def example_snapshot_def Let_def savingsRate_points_def
        debtManagement_points_def emergencyFund_points_def expenseManagement_points_def
        goalPlanning_points_def truthy_def js_ge_def js_gt_def)
  have t: "totalScore (compute_scores example_snapshot) = 93"
    by (simp add: s totalScore_def Math_round_def)
  show ?thesis
    using s t by (simp add: calculateFinancialScore_def Let_def category_of_def)
qed

text \<open>Every sub-score is one of the whole numbers of its \<open>if\<close> chain.\<close>

lemma savingsRate_points_values: "savingsRate_points r \<in> {0, 5, 10, 15, 20, 22, 25}"
  by (simp add: savingsRate_points_def)

lemma debtManagement_points_values: "debtManagement_points r \<in> {5, 10, 15, 20, 25}"
  by (simp add: debtManagement_points_def)

lemma emergencyFund_points_values: "emergencyFund_points m \<in> {0, 4, 8, 12, 16, 20}"
  by (simp add: emergencyFund_points_def)

lemma expenseManagement_points_values: "expenseManagement_points r \<in> {3, 7, 10, 12, 15}"
  by (simp add: expenseManagement_points_def)

lemma goalPlanning_points_values: "goalPlanning_points s l \<in> {0, 8, 15}"
  by (simp add: goalPlanning_points_def)

lemma Math_round_of_int: "Math_round (real_of_int n) = real_of_int n"
proof -
  have "\<lfloor>real_of_int n + 1 / 2\<rfloor> = n"
    by linarith
  then show ?thesis
    by (simp add: Math_round_def)
qed

lemma Math_round_Ints: "x \<in> \<int> \<Longrightarrow> Math_round x = x"
  by (auto elim!: Ints_cases simp: Math_round_of_int)

lemma points_Ints:
  "savingsRate_points r \<in> \<int>" "debtManagement_points r \<in> \<int>" "emergencyFund_points m \<in> \<int>"
  "expenseManagement_points r \<in> \<int>" "goalPlanning_points s l \<in> \<int>"
  by (simp_all add: savingsRate_points_def debtManagement_points_def emergencyFund_points_def
      expenseManagement_points_def goalPlanning_points_def)

lemma savingsRate_points_bounds: "0 \<le> savingsRate_points r \<and> savingsRate_points r \<le> 25"
  by (simp add: savingsRate_points_def)

lemma debtManagement_points_bounds: "5 \<le> debtManagement_points r \<and> debtManagement_points r \<le> 25"
  by (simp add: debtManagement_points_def)

lemma emergencyFund_points_bounds: "0 \<le> emergencyFund_points m \<and> emergencyFund_points m \<le> 20"
  by (simp add: emergencyFund_points_def)

lemma expenseManagement_points_bounds: "3 \<le> expenseManagement_points r \<and> expenseManagement_points r \<le> 15"
  by (simp add: expenseManagement_points_def)

lemma goalPlanning_points_bounds: "0 \<le> goalPlanning_points s l \<and> goalPlanning_points s l \<le> 15"
  by (simp add: goalPlanning_points_def)

text \<open>The sum of the sub-scores is a whole number, so \<open>Math.round\<close> leaves it as it is.\<close>

lemma totalScore_sum:
  "totalScore (compute_scores data) =
     savingsRate (compute_scores data) + debtManagement (compute_scores data)
     + emergencyFund (compute_scores data) + expenseManagement (compute_scores data)
     + goalPlanning (compute_scores data)"
  unfolding totalScore_def
  by (rule Math_round_Ints) (simp add: compute_scores_def Let_def points_Ints)

lemma totalScore_bounds:
  "8 \<le> totalScore (compute_scores data) \<and> totalScore (compute_scores data) \<le> 100"
proof -
  let ?sr = "js_div (Fin (monthlyIncome data - monthlyExpenses data)) (Fin (monthlyIncome data))"
  let ?dr = "js_div (Fin (totalDebt data)) (Fin (monthlyIncome data * 12))"
  let ?er = "js_div (Fin (monthlyExpenses data)) (Fin (monthlyIncome data))"
  have "totalScore (compute_scores data) =
      savingsRate_points ?sr + debtManagement_points ?dr + emergencyFund_points (emergencyFundMonths data)
      + expenseManagement_points ?er + goalPlanning_points (shortTermGoals data) (longTermGoals data)"
    by (simp add: totalScore_sum) (simp add: compute_scores_def Let_def)
  then show ?thesis
    using savingsRate_points_bounds [of ?sr] debtManagement_points_bounds [of ?dr]
      emergencyFund_points_bounds [of "emergencyFundMonths data"] expenseManagement_points_bounds [of ?er]
      goalPlanning_points_bounds [of "shortTermGoals data" "longTermGoals data"]
    by linarith
qed

lemma score_eq: "score (calculateFinancialScore data) = totalScore (compute_scores data)"
  by (simp add: calculateFinancialScore_def Let_def)

lemma category_eq:
  "AssessmentResult.category (calculateFinancialScore data) = category_of (totalScore (compute_scores data))"
  by (simp add: calculateFinancialScore_def Let_def)

text \<open>
  C3. For every snapshot with a positive monthly income and the other numeric fields not
  negative, the score lies between 0 and 100, and the category is excellent exactly when
  the score is at least 80, good exactly when it is at least 60 and below 80, fair exactly
  when it is at least 40 and below 60, and poor exactly when it is below 40.
\<close>

theorem score_range_and_category:
  assumes "0 < monthlyIncome data" and "0 \<le> monthlyExpenses data" and "0 \<le> totalDebt data"
    and "0 \<le> savingsAmount data" and "0 \<le> emergencyFundMonths data"
  shows "0 \<le> score (calculateFinancialScore data)
       \<and> score (calculateFinancialScore data) \<le> 100
       \<and> (AssessmentResult.category (calculateFinancialScore data) = excellent
            \<longleftrightarrow> 80 \<le> score (calculateFinancialScore data))
       \<and> (AssessmentResult.category (calculateFinancialScore data) = good
            \<longleftrightarrow> 60 \<le> score (calculateFinancialScore data) \<and> score (calculateFinancialScore data) < 80)
       \<and> (AssessmentResult.category (calculateFinancialScore data) = fair
            \<longleftrightarrow> 40 \<le> score (calculateFinancialScore data) \<and> score (calculateFinancialScore data) < 60)
       \<and> (AssessmentResult.category (calculateFinancialScore data) = poor
            \<longleftrightarrow> score (calculateFinancialScore data) < 40)"
  using totalScore_bounds [of data]
  by (simp add: score_eq category_eq category_of_def)

theorem score_range_and_category_witness:
  "0 < monthlyIncome example_snapshot
   \<and> 0 \<le> score (calculateFinancialScore example_snapshot)
   \<and> score (calculateFinancialScore example_snapshot) \<le> 100
   \<and> AssessmentResult.category (calculateFinancialScore example_snapshot) = excellent
   \<and> 80 \<le> score (calculateFinancialScore example_snapshot)"
proof -
  have h: "0 < monthlyIncome example_snapshot" "0 \<le> monthlyExpenses example_snapshot"
    "0 \<le> totalDebt example_snapshot" "0 \<le> savingsAmount example_snapshot"
    "0 \<le> emergencyFundMonths example_snapshot"
    by (simp_all add: example_snapshot_def)
  have s: "score (calculateFinancialScore example_snapshot) = 93"
    by (simp add: score_eq totalScore_sum)
      (simp add: compute_scores_def example_snapshot_def Let_def savingsRate_points_def
        debtManagement_points_def emergencyFund_points_def expenseManagement_points_def
        goalPlanning_points_def truthy_def js_ge_def js_gt_def)
  show ?thesis
    using score_range_and_category [OF h] h(1) s by simp
qed

text \<open>
  C9. For every input with a positive monthly income the score is at least 8: the
  debt-management sub-score is never below 5 and the expense-management sub-score never
  below 3, so no score below 8 is reached and every poor result has a score in [8, 40).
\<close>

theorem score_at_least_eight:
  assumes "0 < monthlyIncome data"
  shows "8 \<le> score (calculateFinancialScore data)
       \<and> 5 \<le> debtManagement (compute_scores data)
       \<and> 3 \<le> expenseManagement (compute_scores data)
       \<and> (AssessmentResult.category (calculateFinancialScore data) = poor
            \<longrightarrow> 8 \<le> score (calculateFinancialScore data) \<and> score (calculateFinancialScore data) < 40)"
proof -
  have "5 \<le> debtManagement (compute_scores data)"
    by (simp add: compute_scores_def Let_def debtManagement_points_bounds)
  moreover have "3 \<le> expenseManagement (compute_scores data)"
    by (simp add: compute_scores_def Let_def expenseManagement_points_bounds)
  moreover have "8 \<le> score (calculateFinancialScore data)"
    using totalScore_bounds [of data] by (simp add: score_eq)
  moreover have "AssessmentResult.category (calculateFinancialScore data) = poor
      \<Longrightarrow> score (calculateFinancialScore data) < 40"
    by (simp add: score_eq category_eq category_of_def split: if_splits)
  ultimately show ?thesis
    by simp
qed

theorem score_at_least_eight_witness:
  "0 < monthlyIncome poorest_snapshot
   \<and> score (calculateFinancialScore poorest_snapshot) = 8
   \<and> AssessmentResult.category (calculateFinancialScore poorest_snapshot) = poor
   \<and> debtManagement (compute_scores poorest_snapshot) = 5
   \<and> expenseManagement (compute_scores poorest_snapshot) = 3"
proof -
  have h: "0 < monthlyIncome poorest_snapshot"
    by (simp add: poorest_snapshot_def)
  have s: "compute_scores poorest_snapshot =
     \<lparr> savingsRate = 0, debtManagement = 5, emergencyFund = 0,
       expenseManagement = 3, goalPlanning = 0 \<rparr>"
    by (simp add: compute_scores_def poorest_snapshot_def Let_def savingsRate_points_def
        debtManagement_points_def emergencyFund_points_def expenseManagement_points_def
        goalPlanning_points_def truthy_def js_ge_def js_gt_def)
  have t: "score (calculateFinancialScore poorest_snapshot) = 8"
    by (simp add: score_eq s totalScore_def Math_round_def)
  then have c: "AssessmentResult.category (calculateFinancialScore poorest_snapshot) = poor"
    by (simp add: score_eq category_eq category_of_def)
  from score_at_least_eight [OF h] h s t c show ?thesis
    by simp
qed


section \<open>ScoreCalculator: the recommendations\<close>

lemma count_goal_block:
  "count_list (A @ B @ C @ D @ G @ S) g
     = count_list A g + count_list B g + count_list C g + count_list D g + count_list G g + count_list S g"
  by simp

text \<open>
  C10. For every input the list of recommendations is not empty: a goal-planning
  recommendation is always appended. When at least one of the two goal texts is set it is
  the message about a timeline, which then occurs exactly once while the message about
  defining goals does not occur; when neither is set it is the message about defining
  goals, which then occurs exactly once while the message about a timeline does not occur.
\<close>

theorem recommendations_goal_message:
  "AssessmentResult.recommendations (calculateFinancialScore data) \<noteq> []
   \<and> count_list (AssessmentResult.recommendations (calculateFinancialScore data))
        ''Create a timeline and savings plan for your goals. Break long-term goals into smaller milestones.''
       = (if truthy (shortTermGoals data) \<or> truthy (longTermGoals data) then 1 else 0)
   \<and> count_list (AssessmentResult.recommendations (calculateFinancialScore data))
        ''Define clear short and long-term financial goals. Having specific targets helps motivate saving and investing.''
       = (if truthy (shortTermGoals data) \<or> truthy (longTermGoals data) then 0 else 1)"
proof -
  let ?recs = "AssessmentResult.recommendations (calculateFinancialScore data)"
  let ?m1 = "''Create a timeline and savings plan for your goals. Break long-term goals into smaller milestones.''"
  let ?m2 = "''Define clear short and long-term financial goals. Having specific targets helps motivate saving and investing.''"
  have r: "?recs
      = recommendations_of data
          (js_div (Fin (monthlyIncome data - monthlyExpenses data)) (Fin (monthlyIncome data)))
          (js_div (Fin (totalDebt data)) (Fin (monthlyIncome data * 12)))"
    by (simp add: calculateFinancialScore_def Let_def)
  have c1: "count_list ?recs ?m1 = (if truthy (shortTermGoals data) \<or> truthy (longTermGoals data) then 1 else 0)"
    unfolding r recommendations_of_def count_goal_block by simp
  have c2: "count_list ?recs ?m2 = (if truthy (shortTermGoals data) \<or> truthy (longTermGoals data) then 0 else 1)"
    unfolding r recommendations_of_def count_goal_block by simp
  have "?recs \<noteq> []"
  proof
    assume "?recs = []"
    then have "count_list ?recs ?m1 = 0" "count_list ?recs ?m2 = 0"
      by simp_all
    with c1 c2 show False
      by (simp split: if_splits)
  qed
  with c1 c2 show ?thesis
    by blast
qed

theorem recommendations_goal_message_witness:
  "AssessmentResult.recommendations (calculateFinancialScore example_snapshot) \<noteq> []
   \<and> count_list (AssessmentResult.recommendations (calculateFinancialScore example_snapshot))
        ''Create a timeline and savings plan for your goals. Break long-term goals into smaller milestones.''
       = 1
   \<and> count_list (AssessmentResult.recommendations (calculateFinancialScore example_snapshot))
        ''Define clear short and long-term financial goals. Having specific targets helps motivate saving and investing.''
       = 0
   \<and> AssessmentResult.recommendations (calculateFinancialScore poorest_snapshot) \<noteq> []
   \<and> count_list (AssessmentResult.recommendations (calculateFinancialScore poorest_snapshot))
        ''Create a timeline and savings plan for your goals. Break long-term goals into smaller milestones.''
       = 0
   \<and> count_list (AssessmentResult.recommendations (calculateFinancialScore poorest_snapshot))
        ''Define clear short and long-term financial goals. Having specific targets helps motivate saving and investing.''
       = 1"
proof -
  have e: "truthy (shortTermGoals example_snapshot) \<or> truthy (longTermGoals example_snapshot)"
    by (simp add: example_snapshot_def truthy_def)
  have p: "\<not> (truthy (shortTermGoals poorest_snapshot) \<or> truthy (longTermGoals poorest_snapshot))"
    by (simp add: poorest_snapshot_def truthy_def)
  from recommendations_goal_message [of example_snapshot] recommendations_goal_message [of poorest_snapshot]
  show ?thesis
    unfolding if_P [OF e] if_not_P [OF p] by blast
qed

section \<open>The request handler and the monthly income\<close>

text \<open>
  C8, as the code has it. A request other than \<open>OPTIONS\<close> whose body has a monthly
  income of zero is answered with the 400 error response and carries no score or
  category; and whenever a response carries a result, the monthly income of the body is
  not zero, both goal texts are set, and the result is the calculator's for that body.
\<close>

theorem serve_zero_income_rejected:
  assumes "json req = Inr data"
  shows "(monthlyIncome data = 0 \<and> method req \<noteq> ''OPTIONS''
           \<longrightarrow> serve req = \<lparr> status = 400, body = ErrorBody ''Missing required fields'' \<rparr>
               \<and> assessment_of (serve req) = None)
       \<and> (\<forall>a. assessment_of (serve req) = Some a
           \<longrightarrow> monthlyIncome data \<noteq> 0 \<and> truthy (shortTermGoals data) \<and> truthy (longTermGoals data)
               \<and> a = calculateFinancialScore data)"
  using assms by (auto simp: serve_def split: if_splits)

theorem serve_zero_income_rejected_witness:
  "serve (post zero_income_snapshot) = \<lparr> status = 400, body = ErrorBody ''Missing required fields'' \<rparr>
   \<and> assessment_of (serve (post zero_income_snapshot)) = None
   \<and> assessment_of (serve (post example_snapshot)) = Some (calculateFinancialScore example_snapshot)
   \<and> monthlyIncome example_snapshot \<noteq> 0"
proof -
  have z: "json (post zero_income_snapshot) = Inr zero_income_snapshot"
    "monthlyIncome zero_income_snapshot = 0" "method (post zero_income_snapshot) \<noteq> ''OPTIONS''"
    by (simp_all add: post_def zero_income_snapshot_def)
  have e: "json (post example_snapshot) = Inr example_snapshot"
    by (simp add: post_def)
  have s: "assessment_of (serve (post example_snapshot)) = Some (calculateFinancialScore example_snapshot)"
    by (simp add: serve_def post_def example_snapshot_def truthy_def)
  from serve_zero_income_rejected [OF z(1)] z(2,3)
  have a: "serve (post zero_income_snapshot) = \<lparr> status = 400, body = ErrorBody ''Missing required fields'' \<rparr>
      \<and> assessment_of (serve (post zero_income_snapshot)) = None"
    by blast
  from serve_zero_income_rejected [OF e] s
  have b: "monthlyIncome example_snapshot \<noteq> 0"
    by blast
  from a b s show ?thesis
    by blast
qed

text \<open>
  A body with a negative monthly income passes the handler's test, since only a falsy
  income is refused: the response is 200 and carries a score of 96 and the category
  excellent.
\<close>

theorem serve_negative_income_accepted:
  "monthlyIncome negative_income_snapshot \<le> 0
   \<and> serve (post negative_income_snapshot)
       = \<lparr> status = 200, body = ResultBody (calculateFinancialScore negative_income_snapshot) \<rparr>
   \<and> score (calculateFinancialScore negative_income_snapshot) = 96
   \<and> AssessmentResult.category (calculateFinancialScore negative_income_snapshot) = excellent"
proof -
  have s: "compute_scores negative_income_snapshot =
     \<lparr> savingsRate = 25, debtManagement = 25, emergencyFund = 16,
       expenseManagement = 15, goalPlanning = 15 \<rparr>"
    by (simp add: compute_scores_def negative_income_snapshot_def Let_def savingsRate_points_def
        debtManagement_points_def emergencyFund_points_def expenseManagement_points_def
        goalPlanning_points_def truthy_def js_ge_def js_gt_def)
  have t: "totalScore (compute_scores negative_income_snapshot) = 96"
    by (simp add: s totalScore_def Math_round_def)
  have "serve (post negative_income_snapshot)
       = \<lparr> status = 200, body = ResultBody (calculateFinancialScore negative_income_snapshot) \<rparr>"
    by (simp add: serve_def post_def negative_income_snapshot_def truthy_def)
  moreover have "monthlyIncome negative_income_snapshot \<le> 0"
    by (simp add: negative_income_snapshot_def)
  ultimately show ?thesis
    using t by (simp add: score_eq category_eq category_of_def)
qed


section \<open>GoalPlanProjector: the monthly plans\<close>

text \<open>The loop started at a month from 1 on appends the points of the months up to the
  last whole month of the horizon.\<close>

lemma plan_loop_eq:
  "1 \<le> m \<Longrightarrow>
   plan_loop request ms m plans
     = plans @ map (plan_point request ms) [m ..< Suc (nat \<lfloor>timeHorizon request * 12\<rfloor>)]"
proof (induction request ms m plans rule: plan_loop.induct)
  case (1 request ms m plans)
  let ?N = "nat \<lfloor>timeHorizon request * 12\<rfloor>"
  show ?case
  proof (cases "real m \<le> timeHorizon request * 12")
    case True
    then have "m \<le> ?N"
      by (simp add: le_nat_floor)
    then have u: "[m ..< Suc ?N] = m # [Suc m ..< Suc ?N]"
      by (simp add: upt_conv_Cons)
    have "plan_loop request ms m plans
        = plan_loop request ms (Suc m) (plans @ [plan_point request ms m])"
      using True by (subst plan_loop.simps) simp
    also have "\<dots> = (plans @ [plan_point request ms m])
        @ map (plan_point request ms) [Suc m ..< Suc ?N]"
      using "1.IH" [OF True] by simp
    finally show ?thesis
      unfolding u by simp
  next
    case False
    have "?N < m"
    proof (cases "timeHorizon request * 12 < 0")
      case True
      then have "?N = 0"
        by simp
      with "1.prems" show ?thesis
        by simp
    next
      case nonneg: False
      have "real_of_int \<lfloor>timeHorizon request * 12\<rfloor> \<le> timeHorizon request * 12"
        by simp
      with False have "real_of_int \<lfloor>timeHorizon request * 12\<rfloor> < real m"
        by linarith
      then have "\<lfloor>timeHorizon request * 12\<rfloor> < int m"
        by linarith
      moreover from nonneg have "0 \<le> \<lfloor>timeHorizon request * 12\<rfloor>"
        by simp
      ultimately show ?thesis
        by (simp add: nat_less_iff)
    qed
    then have "[m ..< Suc ?N] = []"
      by simp
    moreover have "plan_loop request ms m plans = plans"
      using False by (subst plan_loop.simps) simp
    ultimately show ?thesis
      by simp
  qed
qed

lemma monthlyPlans_eq:
  "monthlyPlans (generateMockFinancialPlan request)
     = map (plan_point request (monthlySavings_of request))
         [1 ..< Suc (nat \<lfloor>timeHorizon request * 12\<rfloor>)]"
  by (simp add: generateMockFinancialPlan_def Let_def plan_loop_eq del: upt_Suc)

lemma monthlyPlans_length:
  "length (monthlyPlans (generateMockFinancialPlan request)) = nat \<lfloor>timeHorizon request * 12\<rfloor>"
  by (simp add: monthlyPlans_eq del: upt_Suc)

lemma monthlyPlans_nth:
  assumes "i < nat \<lfloor>timeHorizon request * 12\<rfloor>"
  shows "monthlyPlans (generateMockFinancialPlan request) ! i
     = plan_point request (monthlySavings_of request) (Suc i)"
proof -
  have "[1 ..< Suc (nat \<lfloor>timeHorizon request * 12\<rfloor>)] ! i = 1 + i"
    using assms by (intro nth_upt) simp
  then show ?thesis
    using assms by (simp add: monthlyPlans_eq del: upt_Suc)
qed

text \<open>With a horizon that is not zero the monthly saving is a finite number, and so is
  every total.\<close>

lemma monthlySavings_finite:
  "timeHorizon request \<noteq> 0 \<Longrightarrow>
   monthlySavings_of request
     = Fin ((targetAmount request - currentSavings request) / (timeHorizon request * 12))"
  by (simp add: monthlySavings_of_def)

lemma plan_point_total:
  "MonthlyPlan.total (plan_point request (Fin x) m)
     = Fin (currentSavings request + x * 0.6 * real m + x * 0.4 * real m)"
  by (simp add: plan_point_def Let_def)

lemma plan_point_month: "month (plan_point request ms m) = m"
  by (simp add: plan_point_def Let_def)

text \<open>
  C2, as the code has it. For a request with target 120000, savings 0, a horizon of
  10 years and moderate risk tolerance, the monthly saving is 1000 and there are 120 monthly
  plans; the plan of month 120 has the total 0 + 1000 * 0.6 * 120 + 1000 * 0.4 * 120 = 120000:
  the total does not carry the factor 1.005 of the risk tolerance.
\<close>

theorem example_plan_month_120:
  assumes "targetAmount request = 120000" and "currentSavings request = 0"
    and "timeHorizon request = 10" and "FinancialPlanRequest.riskTolerance request = Moderate"
  shows "monthlySavings_of request = Fin 1000
       \<and> length (monthlyPlans (generateMockFinancialPlan request)) = 120
       \<and> month (monthlyPlans (generateMockFinancialPlan request) ! 119) = 120
       \<and> MonthlyPlan.total (monthlyPlans (generateMockFinancialPlan request) ! 119)
           = Fin (0 + 1000 * 0.6 * 120 + 1000 * 0.4 * 120)
       \<and> MonthlyPlan.total (monthlyPlans (generateMockFinancialPlan request) ! 119) = Fin 120000"
proof -
  have ms: "monthlySavings_of request = Fin 1000"
    using assms by (simp add: monthlySavings_of_def)
  have n: "nat \<lfloor>timeHorizon request * 12\<rfloor> = 120"
    using assms by simp
  have p: "monthlyPlans (generateMockFinancialPlan request) ! 119 = plan_point request (Fin 1000) 120"
    using monthlyPlans_nth [of 119 request] n ms by simp
  have "MonthlyPlan.total (plan_point request (Fin 1000) 120) = Fin 120000"
    using assms by (simp add: plan_point_total)
  then show ?thesis
    using ms n p by (simp add: monthlyPlans_length plan_point_month)
qed

theorem example_plan_month_120_witness:
  "monthlySavings_of example_goal_request = Fin 1000
   \<and> length (monthlyPlans (generateMockFinancialPlan example_goal_request)) = 120
   \<and> month (monthlyPlans (generateMockFinancialPlan example_goal_request) ! 119) = 120
   \<and> MonthlyPlan.total (monthlyPlans (generateMockFinancialPlan example_goal_request) ! 119) = Fin 120000"
proof -
  have h: "targetAmount example_goal_request = 120000" "currentSavings example_goal_request = 0"
    "timeHorizon example_goal_request = 10"
    "FinancialPlanRequest.riskTolerance example_goal_request = Moderate"
    by (simp_all add: example_goal_request_def)
  from example_plan_month_120 [OF h] show ?thesis
    by blast
qed

text \<open>
  The total of month 120 is not the 120240 that a total carrying the factor 1.005 on its
  investment part would be.
\<close>

theorem example_plan_total_not_120240:
  "month (monthlyPlans (generateMockFinancialPlan example_goal_request) ! 119) = 120
   \<and> MonthlyPlan.total (monthlyPlans (generateMockFinancialPlan example_goal_request) ! 119)
       \<noteq> Fin (0 + 1000 * 0.6 * 120 + 1000 * 0.4 * 120 * 1.005)
   \<and> MonthlyPlan.total (monthlyPlans (generateMockFinancialPlan example_goal_request) ! 119)
       \<noteq> Fin 120240"
proof -
  have ms: "monthlySavings_of example_goal_request = Fin 1000"
    by (simp add: monthlySavings_of_def example_goal_request_def)
  have n: "nat \<lfloor>timeHorizon example_goal_request * 12\<rfloor> = 120"
    by (simp add: example_goal_request_def)
  have p: "monthlyPlans (generateMockFinancialPlan example_goal_request) ! 119
      = plan_point example_goal_request (Fin 1000) 120"
    using monthlyPlans_nth [of 119 example_goal_request] n ms by simp
  have "MonthlyPlan.total (plan_point example_goal_request (Fin 1000) 120) = Fin 120000"
    by (simp add: plan_point_total example_goal_request_def)
  then show ?thesis
    using p by (simp add: plan_point_month)
qed

text \<open>
  C7. For every request with a positive horizon and a target not below the current
  savings, the totals of the monthly plans never decrease: each plan is the plan of the
  month after its predecessor's and its total is at least its predecessor's.
\<close>

theorem monthlyPlans_total_nondecreasing:
  assumes "0 < timeHorizon request" and "currentSavings request \<le> targetAmount request"
    and "Suc i < length (monthlyPlans (generateMockFinancialPlan request))"
  shows "month (monthlyPlans (generateMockFinancialPlan request) ! Suc i)
           = month (monthlyPlans (generateMockFinancialPlan request) ! i) + 1
       \<and> js_ge (MonthlyPlan.total (monthlyPlans (generateMockFinancialPlan request) ! Suc i))
               (MonthlyPlan.total (monthlyPlans (generateMockFinancialPlan request) ! i))"
proof -
  define x where "x = (targetAmount request - currentSavings request) / (timeHorizon request * 12)"
  have ms: "monthlySavings_of request = Fin x"
    using assms(1) by (simp add: monthlySavings_finite x_def)
  have x: "0 \<le> x"
    using assms(1,2) by (simp add: x_def)
  have i: "i < nat \<lfloor>timeHorizon request * 12\<rfloor>" "Suc i < nat \<lfloor>timeHorizon request * 12\<rfloor>"
    using assms(3) by (simp_all add: monthlyPlans_length)
  have p: "monthlyPlans (generateMockFinancialPlan request) ! i = plan_point request (Fin x) (Suc i)"
    "monthlyPlans (generateMockFinancialPlan request) ! Suc i = plan_point request (Fin x) (Suc (Suc i))"
    using monthlyPlans_nth [OF i(1)] monthlyPlans_nth [OF i(2)] ms by simp_all
  have "x * 0.6 * real (Suc i) \<le> x * 0.6 * real (Suc (Suc i))"
    and "x * 0.4 * real (Suc i) \<le> x * 0.4 * real (Suc (Suc i))"
    using x by (simp_all add: mult_left_mono)
  then have "js_ge (MonthlyPlan.total (plan_point request (Fin x) (Suc (Suc i))))
      (MonthlyPlan.total (plan_point request (Fin x) (Suc i)))"
    unfolding plan_point_total js_ge_def by simp
  then show ?thesis
    by (simp add: p plan_point_month)
qed

theorem monthlyPlans_total_nondecreasing_witness:
  "0 < timeHorizon example_goal_request
   \<and> currentSavings example_goal_request \<le> targetAmount example_goal_request
   \<and> Suc 0 < length (monthlyPlans (generateMockFinancialPlan example_goal_request))
   \<and> month (monthlyPlans (generateMockFinancialPlan example_goal_request) ! Suc 0)
       = month (monthlyPlans (generateMockFinancialPlan example_goal_request) ! 0) + 1
   \<and> js_ge (MonthlyPlan.total (monthlyPlans (generateMockFinancialPlan example_goal_request) ! Suc 0))
           (MonthlyPlan.total (monthlyPlans (generateMockFinancialPlan example_goal_request) ! 0))"
proof -
  have h: "0 < timeHorizon example_goal_request"
    "currentSavings example_goal_request \<le> targetAmount example_goal_request"
    by (simp_all add: example_goal_request_def)
  have l: "Suc 0 < length (monthlyPlans (generateMockFinancialPlan example_goal_request))"
    by (simp add: monthlyPlans_length example_goal_request_def)
  from monthlyPlans_total_nondecreasing [OF h l] h l show ?thesis
    by blast
qed


section \<open>ScenarioProjector: the projections and the statistics\<close>

text \<open>One turn of the loop over the years, with the \<open>let\<close> of the source unfolded.\<close>

lemma year_loop_step:
  "year_loop rnd mr mv mc dur y b projs =
     (if real y \<le> dur
      then (if y = 0
            then year_loop rnd mr mv mc dur (Suc y) b
                   (projs @ [\<lparr> year = y, conservative = conservativeValue b,
                               moderate = moderateValue b, aggressive = aggressiveValue b \<rparr>])
            else year_loop rnd mr mv mc dur (Suc y) (month_loop rnd mr mv mc 0 b)
                   (projs @ [\<lparr> year = y,
                               conservative = Math_round (conservativeValue (month_loop rnd mr mv mc 0 b)),
                               moderate = Math_round (moderateValue (month_loop rnd mr mv mc 0 b)),
                               aggressive = Math_round (aggressiveValue (month_loop rnd mr mv mc 0 b)) \<rparr>]))
      else (projs, draws b))"
  by (subst year_loop.simps) (simp add: Let_def)

lemma year_loop_years:
  "map year (fst (year_loop rnd mr mv mc (real d) y b projs)) = map year projs @ [y ..< Suc d]"
proof (induction rnd mr mv mc "real d" y b projs rule: year_loop.induct)
  case (1 rnd mr mv mc y b projs)
  show ?case
  proof (cases "y \<le> d")
    case True
    then have u: "[y ..< Suc d] = y # [Suc y ..< Suc d]"
      by (simp add: upt_conv_Cons)
    show ?thesis
    proof (cases "y = 0")
      case True
      with \<open>y \<le> d\<close> "1.hyps"(1) show ?thesis
        by (subst year_loop_step) (simp add: upt_conv_Cons [of 0 "Suc d"] del: upt_Suc)
    next
      case False
      with \<open>y \<le> d\<close> "1.hyps"(2) show ?thesis
        by (subst year_loop_step) (simp add: u del: upt_Suc)
    qed
  next
    case False
    then show ?thesis
      by (subst year_loop_step) simp
  qed
qed

lemma year_loop_prefix:
  "\<exists>rest. fst (year_loop rnd mr mv mc dur y b projs) = projs @ rest"
proof (induction rnd mr mv mc dur y b projs rule: year_loop.induct)
  case (1 rnd mr mv mc dur y b projs)
  show ?case
  proof (cases "real y \<le> dur")
    case le: True
    show ?thesis
    proof (cases "y = 0")
      case True
      with le "1.IH"(1) show ?thesis
        by (subst year_loop_step) auto
    next
      case False
      with le "1.IH"(2) show ?thesis
        by (subst year_loop_step) auto
    qed
  next
    case False
    then show ?thesis
      by (subst year_loop_step) simp
  qed
qed

lemma calculateProjection_years:
  "map year (fst (calculateProjection random drawn initialAmount' (real d) scenario contribution))
     = [0 ..< Suc d]"
  by (simp add: calculateProjection_def Let_def year_loop_years del: upt_Suc)

lemma calculateProjection_length:
  "length (fst (calculateProjection random drawn initialAmount' (real d) scenario contribution)) = Suc d"
proof -
  have "length (map year (fst (calculateProjection random drawn initialAmount' (real d) scenario contribution)))
      = length [0 ..< Suc d]"
    by (simp only: calculateProjection_years)
  then show ?thesis
    by simp
qed

lemma calculateProjection_first:
  "fst (calculateProjection random drawn initialAmount' (real d) scenario contribution) ! 0
     = \<lparr> year = 0, conservative = initialAmount', moderate = initialAmount',
         aggressive = initialAmount' \<rparr>"
proof -
  let ?b = "\<lparr> conservativeValue = initialAmount', moderateValue = initialAmount',
             aggressiveValue = initialAmount', draws = drawn \<rparr>"
  let ?p = "\<lparr> year = 0, conservative = initialAmount', moderate = initialAmount',
             aggressive = initialAmount' \<rparr>"
  let ?mr = "annualReturn (FINANCIAL_ASSUMPTIONS scenario) / 12"
  let ?mv = "Assumptions.volatility (FINANCIAL_ASSUMPTIONS scenario) / sqrt 12"
  have "fst (calculateProjection random drawn initialAmount' (real d) scenario contribution)
      = fst (year_loop random ?mr ?mv contribution (real d) (Suc 0) ?b [?p])"
    by (simp add: calculateProjection_def Let_def) (subst year_loop_step, simp)
  moreover obtain rest where
    "fst (year_loop random ?mr ?mv contribution (real d) (Suc 0) ?b [?p]) = [?p] @ rest"
    using year_loop_prefix by blast
  ultimately show ?thesis
    by simp
qed

text \<open>
  C5. For every whole number of years, every initial amount and every monthly
  contribution, whatever the draws, the projections returned by \<open>calculateProjection\<close>
  have one entry more than the duration has years, entry \<open>k\<close> has the year \<open>k\<close>, and the
  entry of year 0 holds the initial amount in its three tier fields.
\<close>

theorem calculateProjection_series:
  "length (fst (calculateProjection random drawn initialAmount' (real durationYears) scenario contribution))
     = durationYears + 1
   \<and> map year (fst (calculateProjection random drawn initialAmount' (real durationYears) scenario contribution))
     = [0 ..< durationYears + 1]
   \<and> fst (calculateProjection random drawn initialAmount' (real durationYears) scenario contribution) ! 0
     = \<lparr> year = 0, conservative = initialAmount', moderate = initialAmount',
         aggressive = initialAmount' \<rparr>"
  using calculateProjection_length [of random drawn initialAmount' durationYears scenario contribution]
    calculateProjection_years [of random drawn initialAmount' durationYears scenario contribution]
    calculateProjection_first [of random drawn initialAmount' durationYears scenario contribution]
  by (simp del: upt_Suc)

text \<open>Reading inside an array succeeds; a throwing \<open>map\<close> whose callback never throws is
  a \<open>map\<close>.\<close>

lemma element_inside: "i < length xs \<Longrightarrow> element xs (int i) = Inr (xs ! i)"
  by (simp add: element_def)

lemma element_last: "xs \<noteq> [] \<Longrightarrow> element xs (int (length xs) - 1) = Inr (last xs)"
  by (cases xs rule: rev_cases) (simp_all add: element_def)

lemma map_throwing_total:
  "(\<And>x. x \<in> set xs \<Longrightarrow> f x = Inr (g x)) \<Longrightarrow> map_throwing f xs = Inr (map g xs)"
  by (induction xs) simp_all

lemma combined_point_inside:
  assumes "index < length cs" and "length ms = length cs" and "length as = length cs"
  shows "combined_point cs ms as index
     = Inr \<lparr> year = index, conservative = ProjectionData.conservative (cs ! index),
             moderate = ProjectionData.moderate (ms ! index),
             aggressive = ProjectionData.aggressive (as ! index) \<rparr>"
  using assms by (simp add: combined_point_def element_inside)

lemma calculateScenarioResults_nonempty:
  assumes "ps \<noteq> []"
  shows "calculateScenarioResults initialAmount' ps scenario
     = Inr \<lparr> finalValue = tier_field scenario (last ps),
             totalReturn = tier_field scenario (last ps) - initialAmount',
             annualizedReturn =
               js_mul
                 (js_sub
                    (Math_pow (js_div (Fin (tier_field scenario (last ps))) (Fin initialAmount'))
                       (js_div (Fin 1) (Fin (real (length ps)))))
                    (Fin 1))
                 (Fin 100),
             maxDrawdown = Assumptions.maxDrawdown (FINANCIAL_ASSUMPTIONS scenario) * 100,
             volatility = Assumptions.volatility (FINANCIAL_ASSUMPTIONS scenario) * 100 \<rparr>"
  using assms by (simp add: calculateScenarioResults_def element_last Let_def)

text \<open>A power of a base that is not negative is the real power.\<close>

lemma Math_pow_nonneg: "0 \<le> q \<Longrightarrow> 0 < e \<Longrightarrow> Math_pow (Fin q) (Fin e) = Fin (q powr e)"
  by simp

lemma assumptions_times_100:
  "Assumptions.maxDrawdown (FINANCIAL_ASSUMPTIONS Conservative) * 100 = 15"
  "Assumptions.volatility (FINANCIAL_ASSUMPTIONS Conservative) * 100 = 8"
  "Assumptions.maxDrawdown (FINANCIAL_ASSUMPTIONS Moderate) * 100 = 25"
  "Assumptions.volatility (FINANCIAL_ASSUMPTIONS Moderate) * 100 = 12"
  "Assumptions.maxDrawdown (FINANCIAL_ASSUMPTIONS Aggressive) * 100 = 40"
  "Assumptions.volatility (FINANCIAL_ASSUMPTIONS Aggressive) * 100 = 18"
  by simp_all

text \<open>The statistics of one tier, for projections of \<open>d + 1\<close> entries and a positive
  initial amount.\<close>

lemma scenario_result_fields:
  assumes "length ps = Suc d" and "0 < initialAmount'"
  shows "\<exists>s. calculateScenarioResults initialAmount' ps tier = Inr s
     \<and> finalValue s = tier_field tier (ps ! d)
     \<and> annualizedReturn s
         = js_mul (js_sub (Math_pow (Fin (finalValue s / initialAmount')) (Fin (1 / (real d + 1)))) (Fin 1))
             (Fin 100)
     \<and> (0 \<le> finalValue s
          \<longrightarrow> annualizedReturn s
              = Fin (((finalValue s / initialAmount') powr (1 / (real d + 1)) - 1) * 100))
     \<and> ScenarioResult.maxDrawdown s = Assumptions.maxDrawdown (FINANCIAL_ASSUMPTIONS tier) * 100
     \<and> ScenarioResult.volatility s = Assumptions.volatility (FINANCIAL_ASSUMPTIONS tier) * 100"
proof -
  from assms(1) have ne: "ps \<noteq> []"
    by auto
  from assms(1) ne have l: "last ps = ps ! d"
    by (simp add: last_conv_nth)
  have e: "js_div (Fin 1) (Fin (real (length ps))) = Fin (1 / (real d + 1))"
    using assms(1) by (simp add: add.commute)
  have q: "js_div (Fin (tier_field tier (ps ! d))) (Fin initialAmount')
      = Fin (tier_field tier (ps ! d) / initialAmount')"
    using assms(2) by simp
  have nz: "0 < 1 / (real d + 1)"
    by (simp add: add_nonneg_pos)
  have pos: "0 \<le> tier_field tier (ps ! d) \<Longrightarrow>
      js_mul (js_sub (Math_pow (Fin (tier_field tier (ps ! d) / initialAmount')) (Fin (1 / (real d + 1)))) (Fin 1))
        (Fin 100)
      = Fin (((tier_field tier (ps ! d) / initialAmount') powr (1 / (real d + 1)) - 1) * 100)"
  proof -
    assume "0 \<le> tier_field tier (ps ! d)"
    with assms(2) have "0 \<le> tier_field tier (ps ! d) / initialAmount'"
      by simp
    from Math_pow_nonneg [OF this nz] show ?thesis
      by (simp add: js_sub_def)
  qed
  show ?thesis
    unfolding calculateScenarioResults_nonempty [OF ne] l e q
    using pos by simp
qed

text \<open>
  C4. For every run of the simulator with a positive initial amount and a duration of
  at least one whole year, whatever the draws, the run produces results, and for each
  tier: the annualized return is ((finalValue / initialAmount) to the power
  1 / (durationYears + 1), minus 1) times 100, the final value being the tier's value in
  the last of the durationYears + 1 yearly projections; and the maximum drawdown and the
  volatility are the entries of the assumption table times 100, that is 15 and 8
  (conservative), 25 and 12 (moderate), 40 and 18 (aggressive).
\<close>

theorem scenario_results_statistics:
  assumes "0 < initialAmount inputs" and "duration inputs = real durationYears" and "1 \<le> durationYears"
  shows "\<exists>r. results random True inputs = Inr (Some r)
     \<and> length (projections r) = durationYears + 1
     \<and> (\<forall>tier.
          finalValue (tier_result tier r) = tier_field tier (projections r ! durationYears)
        \<and> annualizedReturn (tier_result tier r)
            = js_mul
                (js_sub
                   (Math_pow (Fin (finalValue (tier_result tier r) / initialAmount inputs))
                      (Fin (1 / (real durationYears + 1))))
                   (Fin 1))
                (Fin 100)
        \<and> (0 \<le> finalValue (tier_result tier r)
             \<longrightarrow> annualizedReturn (tier_result tier r)
                 = Fin (((finalValue (tier_result tier r) / initialAmount inputs)
                           powr (1 / (real durationYears + 1)) - 1) * 100))
        \<and> ScenarioResult.maxDrawdown (tier_result tier r)
            = Assumptions.maxDrawdown (FINANCIAL_ASSUMPTIONS tier) * 100
        \<and> ScenarioResult.volatility (tier_result tier r)
            = Assumptions.volatility (FINANCIAL_ASSUMPTIONS tier) * 100)
     \<and> ScenarioResult.maxDrawdown (SimulationResults.conservative r) = 15
     \<and> ScenarioResult.volatility (SimulationResults.conservative r) = 8
     \<and> ScenarioResult.maxDrawdown (SimulationResults.moderate r) = 25
     \<and> ScenarioResult.volatility (SimulationResults.moderate r) = 12
     \<and> ScenarioResult.maxDrawdown (SimulationResults.aggressive r) = 40
     \<and> ScenarioResult.volatility (SimulationResults.aggressive r) = 18"
proof -
  let ?ia = "initialAmount inputs"
  let ?mc = "or_zero (monthlyContribution inputs)"
  let ?d = durationYears
  obtain p0 d1 where c0:
    "calculateProjection random 0 ?ia (real ?d) (SimulationInputs.riskTolerance inputs) ?mc = (p0, d1)"
    by (cases "calculateProjection random 0 ?ia (real ?d) (SimulationInputs.riskTolerance inputs) ?mc")
  obtain cs d2 where c1: "calculateProjection random d1 ?ia (real ?d) Conservative ?mc = (cs, d2)"
    by (cases "calculateProjection random d1 ?ia (real ?d) Conservative ?mc")
  obtain ms d3 where c2: "calculateProjection random d2 ?ia (real ?d) Moderate ?mc = (ms, d3)"
    by (cases "calculateProjection random d2 ?ia (real ?d) Moderate ?mc")
  obtain as d4 where c3: "calculateProjection random d3 ?ia (real ?d) Aggressive ?mc = (as, d4)"
    by (cases "calculateProjection random d3 ?ia (real ?d) Aggressive ?mc")
  have len: "length cs = Suc ?d" "length ms = Suc ?d" "length as = Suc ?d"
    using calculateProjection_length [of random d1 ?ia ?d Conservative ?mc]
      calculateProjection_length [of random d2 ?ia ?d Moderate ?mc]
      calculateProjection_length [of random d3 ?ia ?d Aggressive ?mc]
    by (simp_all add: c1 c2 c3)
  define point where "point index =
      \<lparr> year = index, conservative = ProjectionData.conservative (cs ! index),
        moderate = ProjectionData.moderate (ms ! index),
        aggressive = ProjectionData.aggressive (as ! index) \<rparr>" for index
  have comb: "map_throwing (combined_point cs ms as) [0 ..< length cs] = Inr (map point [0 ..< length cs])"
  proof (rule map_throwing_total)
    fix index assume "index \<in> set [0 ..< length cs]"
    then have "index < length cs"
      by simp
    then show "combined_point cs ms as index = Inr (point index)"
      unfolding point_def by (rule combined_point_inside) (simp_all add: len)
  qed
  obtain sc where sc: "calculateScenarioResults ?ia cs Conservative = Inr sc"
    and sc_fields: "finalValue sc = tier_field Conservative (cs ! ?d)"
      "annualizedReturn sc
         = js_mul (js_sub (Math_pow (Fin (finalValue sc / ?ia)) (Fin (1 / (real ?d + 1)))) (Fin 1)) (Fin 100)"
      "0 \<le> finalValue sc
         \<longrightarrow> annualizedReturn sc = Fin (((finalValue sc / ?ia) powr (1 / (real ?d + 1)) - 1) * 100)"
      "ScenarioResult.maxDrawdown sc = Assumptions.maxDrawdown (FINANCIAL_ASSUMPTIONS Conservative) * 100"
      "ScenarioResult.volatility sc = Assumptions.volatility (FINANCIAL_ASSUMPTIONS Conservative) * 100"
    using scenario_result_fields [OF len(1) assms(1), of Conservative] by blast
  obtain sm where sm: "calculateScenarioResults ?ia ms Moderate = Inr sm"
    and sm_fields: "finalValue sm = tier_field Moderate (ms ! ?d)"
      "annualizedReturn sm
         = js_mul (js_sub (Math_pow (Fin (finalValue sm / ?ia)) (Fin (1 / (real ?d + 1)))) (Fin 1)) (Fin 100)"
      "0 \<le> finalValue sm
         \<longrightarrow> annualizedReturn sm = Fin (((finalValue sm / ?ia) powr (1 / (real ?d + 1)) - 1) * 100)"
      "ScenarioResult.maxDrawdown sm = Assumptions.maxDrawdown (FINANCIAL_ASSUMPTIONS Moderate) * 100"
      "ScenarioResult.volatility sm = Assumptions.volatility (FINANCIAL_ASSUMPTIONS Moderate) * 100"
    using scenario_result_fields [OF len(2) assms(1), of Moderate] by blast
  obtain sa where sa: "calculateScenarioResults ?ia as Aggressive = Inr sa"
    and sa_fields: "finalValue sa = tier_field Aggressive (as ! ?d)"
      "annualizedReturn sa
         = js_mul (js_sub (Math_pow (Fin (finalValue sa / ?ia)) (Fin (1 / (real ?d + 1)))) (Fin 1)) (Fin 100)"
      "0 \<le> finalValue sa
         \<longrightarrow> annualizedReturn sa = Fin (((finalValue sa / ?ia) powr (1 / (real ?d + 1)) - 1) * 100)"
      "ScenarioResult.maxDrawdown sa = Assumptions.maxDrawdown (FINANCIAL_ASSUMPTIONS Aggressive) * 100"
      "ScenarioResult.volatility sa = Assumptions.volatility (FINANCIAL_ASSUMPTIONS Aggressive) * 100"
    using scenario_result_fields [OF len(3) assms(1), of Aggressive] by blast
  define r where "r = \<lparr> SimulationResults.conservative = sc, SimulationResults.moderate = sm,
      SimulationResults.aggressive = sa, projections = map point [0 ..< length cs] \<rparr>"
  have run: "results random True inputs = Inr (Some r)"
    by (simp add: results_def assms(2) c0 c1 c2 c3 comb sc sm sa r_def del: upt_Suc)
  have plen: "length (projections r) = ?d + 1"
    by (simp add: r_def len)
  have "[0 ..< Suc ?d] ! ?d = 0 + ?d"
    by (intro nth_upt) simp
  then have last_point: "projections r ! ?d = point ?d"
    by (simp add: r_def len del: upt_Suc)
  have tiers: "finalValue (tier_result tier r) = tier_field tier (projections r ! ?d)
      \<and> annualizedReturn (tier_result tier r)
          = js_mul (js_sub (Math_pow (Fin (finalValue (tier_result tier r) / ?ia)) (Fin (1 / (real ?d + 1))))
               (Fin 1)) (Fin 100)
      \<and> (0 \<le> finalValue (tier_result tier r)
           \<longrightarrow> annualizedReturn (tier_result tier r)
               = Fin (((finalValue (tier_result tier r) / ?ia) powr (1 / (real ?d + 1)) - 1) * 100))
      \<and> ScenarioResult.maxDrawdown (tier_result tier r)
          = Assumptions.maxDrawdown (FINANCIAL_ASSUMPTIONS tier) * 100
      \<and> ScenarioResult.volatility (tier_result tier r)
          = Assumptions.volatility (FINANCIAL_ASSUMPTIONS tier) * 100" for tier
  proof (cases tier)
    case Conservative
    have "tier_result tier r = sc"
      by (simp add: Conservative r_def)
    moreover have "tier_field tier (projections r ! ?d) = tier_field Conservative (cs ! ?d)"
      by (simp add: Conservative last_point point_def)
    ultimately show ?thesis
      using sc_fields by (simp add: Conservative)
  next
    case Moderate
    have "tier_result tier r = sm"
      by (simp add: Moderate r_def)
    moreover have "tier_field tier (projections r ! ?d) = tier_field Moderate (ms ! ?d)"
      by (simp add: Moderate last_point point_def)
    ultimately show ?thesis
      using sm_fields by (simp add: Moderate)
  next
    case Aggressive
    have "tier_result tier r = sa"
      by (simp add: Aggressive r_def)
    moreover have "tier_field tier (projections r ! ?d) = tier_field Aggressive (as ! ?d)"
      by (simp add: Aggressive last_point point_def)
    ultimately show ?thesis
      using sa_fields by (simp add: Aggressive)
  qed
  have table: "ScenarioResult.maxDrawdown (SimulationResults.conservative r) = 15"
    "ScenarioResult.volatility (SimulationResults.conservative r) = 8"
    "ScenarioResult.maxDrawdown (SimulationResults.moderate r) = 25"
    "ScenarioResult.volatility (SimulationResults.moderate r) = 12"
    "ScenarioResult.maxDrawdown (SimulationResults.aggressive r) = 40"
    "ScenarioResult.volatility (SimulationResults.aggressive r) = 18"
    using sc_fields(4,5) sm_fields(4,5) sa_fields(4,5)
    by (simp_all add: r_def)
  from run plen tiers table show ?thesis
    by blast
qed

text \<open>
  A run to look at: 10000 invested for one year, no contribution, every draw 0.5. The
  twelve months multiply a balance by the twelfth power of 1 plus the monthly return.
\<close>

lemma month_loop_middle:
  "month_loop middle_draws mr mv 0 0
     \<lparr> conservativeValue = c, moderateValue = m, aggressiveValue = a, draws = k \<rparr>
     = \<lparr> conservativeValue = c * (1 + mr) ^ 12, moderateValue = m * (1 + mr) ^ 12,
         aggressiveValue = a * (1 + mr) ^ 12, draws = k + 36 \<rparr>"
  by (simp add: month_loop.simps month_step_def Let_def middle_draws_def power_def algebra_simps)

lemma year_one_balances:
  "Math_round (10000 * (241 / 240) ^ 12) = 10512"
  "Math_round (10000 * (151 / 150) ^ 12) = 10830"
  "Math_round (10000 * (1211 / 1200) ^ 12) = 11157"
proof -
  have "\<lfloor>(10000::real) * (241 / 240) ^ 12 + 1 / 2\<rfloor> = 10512"
    by (subst floor_eq_iff) (simp add: power_divide field_simps)
  moreover have "\<lfloor>(10000::real) * (151 / 150) ^ 12 + 1 / 2\<rfloor> = 10830"
    by (subst floor_eq_iff) (simp add: power_divide field_simps)
  moreover have "\<lfloor>(10000::real) * (1211 / 1200) ^ 12 + 1 / 2\<rfloor> = 11157"
    by (subst floor_eq_iff) (simp add: power_divide field_simps)
  ultimately show "Math_round (10000 * (241 / 240) ^ 12) = 10512"
    "Math_round (10000 * (151 / 150) ^ 12) = 10830"
    "Math_round (10000 * (1211 / 1200) ^ 12) = 11157"
    by (simp_all add: Math_round_def)
qed

lemma example_projection:
  "calculateProjection middle_draws k 10000 1 tier 0
     = ([\<lparr> year = 0, conservative = 10000, moderate = 10000, aggressive = 10000 \<rparr>,
         \<lparr> year = 1,
           conservative = Math_round (10000 * (1 + annualReturn (FINANCIAL_ASSUMPTIONS tier) / 12) ^ 12),
           moderate = Math_round (10000 * (1 + annualReturn (FINANCIAL_ASSUMPTIONS tier) / 12) ^ 12),
           aggressive = Math_round (10000 * (1 + annualReturn (FINANCIAL_ASSUMPTIONS tier) / 12) ^ 12) \<rparr>],
        k + 36)"
  by (simp add: calculateProjection_def Let_def year_loop_step month_loop_middle)

lemma example_run_projections:
  assumes "results middle_draws True example_inputs = Inr (Some r)"
  shows "projections r
     = [\<lparr> year = 0, conservative = 10000, moderate = 10000, aggressive = 10000 \<rparr>,
        \<lparr> year = 1, conservative = 10512, moderate = 10830, aggressive = 11157 \<rparr>]"
proof -
  have "[0 ..< 2] = [0, Suc 0]"
    by (simp add: upt_rec)
  then show ?thesis
    using assms
    by (auto simp: results_def example_inputs_def or_zero_def example_projection year_one_balances
        combined_point_def element_def calculateScenarioResults_def Let_def
        split: sum.splits)
qed

theorem scenario_results_statistics_witness:
  "0 < initialAmount example_inputs \<and> duration example_inputs = real 1
   \<and> (\<exists>r. results middle_draws True example_inputs = Inr (Some r)
        \<and> projections r
            = [\<lparr> year = 0, conservative = 10000, moderate = 10000, aggressive = 10000 \<rparr>,
               \<lparr> year = 1, conservative = 10512, moderate = 10830, aggressive = 11157 \<rparr>]
        \<and> finalValue (SimulationResults.conservative r) = 10512
        \<and> annualizedReturn (SimulationResults.conservative r)
            = Fin (((10512 / 10000) powr (1 / 2) - 1) * 100)
        \<and> finalValue (SimulationResults.moderate r) = 10830
        \<and> annualizedReturn (SimulationResults.moderate r)
            = Fin (((10830 / 10000) powr (1 / 2) - 1) * 100)
        \<and> finalValue (SimulationResults.aggressive r) = 11157
        \<and> annualizedReturn (SimulationResults.aggressive r)
            = Fin (((11157 / 10000) powr (1 / 2) - 1) * 100)
        \<and> ScenarioResult.maxDrawdown (SimulationResults.conservative r) = 15
        \<and> ScenarioResult.volatility (SimulationResults.conservative r) = 8
        \<and> ScenarioResult.maxDrawdown (SimulationResults.moderate r) = 25
        \<and> ScenarioResult.volatility (SimulationResults.moderate r) = 12
        \<and> ScenarioResult.maxDrawdown (SimulationResults.aggressive r) = 40
        \<and> ScenarioResult.volatility (SimulationResults.aggressive r) = 18)"
proof -
  have h: "0 < initialAmount example_inputs" "duration example_inputs = real 1" "(1::nat) \<le> 1"
    by (simp_all add: example_inputs_def)
  from scenario_results_statistics [OF h, of middle_draws]
  obtain r where run: "results middle_draws True example_inputs = Inr (Some r)"
    and tiers: "\<And>tier. finalValue (tier_result tier r) = tier_field tier (projections r ! 1)"
      "\<And>tier. 0 \<le> finalValue (tier_result tier r)
         \<longrightarrow> annualizedReturn (tier_result tier r)
             = Fin (((finalValue (tier_result tier r) / initialAmount example_inputs)
                       powr (1 / (real 1 + 1)) - 1) * 100)"
    and table: "ScenarioResult.maxDrawdown (SimulationResults.conservative r) = 15"
      "ScenarioResult.volatility (SimulationResults.conservative r) = 8"
      "ScenarioResult.maxDrawdown (SimulationResults.moderate r) = 25"
      "ScenarioResult.volatility (SimulationResults.moderate r) = 12"
      "ScenarioResult.maxDrawdown (SimulationResults.aggressive r) = 40"
      "ScenarioResult.volatility (SimulationResults.aggressive r) = 18"
    by blast
  note p = example_run_projections [OF run]
  have ia: "initialAmount example_inputs = 10000"
    by (simp add: example_inputs_def)
  have c: "finalValue (SimulationResults.conservative r) = 10512"
    using tiers(1) [of Conservative] by (simp add: p)
  have m: "finalValue (SimulationResults.moderate r) = 10830"
    using tiers(1) [of Moderate] by (simp add: p)
  have a: "finalValue (SimulationResults.aggressive r) = 11157"
    using tiers(1) [of Aggressive] by (simp add: p)
  have ac: "annualizedReturn (SimulationResults.conservative r) = Fin (((10512 / 10000) powr (1 / 2) - 1) * 100)"
    using tiers(2) [of Conservative] by (simp add: c ia)
  have am: "annualizedReturn (SimulationResults.moderate r) = Fin (((10830 / 10000) powr (1 / 2) - 1) * 100)"
    using tiers(2) [of Moderate] by (simp add: m ia)
  have aa: "annualizedReturn (SimulationResults.aggressive r) = Fin (((11157 / 10000) powr (1 / 2) - 1) * 100)"
    using tiers(2) [of Aggressive] by (simp add: a ia)
  from h(1,2) run p c m a ac am aa table show ?thesis
    by blast
qed


section \<open>WealthProjector: the recommended allocation\<close>

text \<open>
  C6. For every wealth profile the recommended allocation has exactly the three categories
  Stocks, Bonds and Real Estate, with the percentages 80, 10, 10 for an aggressive,
  60, 30, 10 for a moderate and 40, 50, 10 for a conservative risk tolerance; the
  percentages sum to 100, and the value of each category is its percentage divided by 100,
  times the current assets less the current liabilities.
\<close>

theorem allocation_by_risk_tolerance:
  "map AssetAllocation.category (snd (calculateRetirementProjection wealthData))
     = [''Stocks'', ''Bonds'', ''Real Estate'']
   \<and> map percentage (snd (calculateRetirementProjection wealthData))
     = (case WealthData.riskTolerance wealthData of
          Aggressive \<Rightarrow> [80, 10, 10]
        | Moderate \<Rightarrow> [60, 30, 10]
        | Conservative \<Rightarrow> [40, 50, 10])
   \<and> sum_list (map percentage (snd (calculateRetirementProjection wealthData))) = 100
   \<and> map AssetAllocation.value (snd (calculateRetirementProjection wealthData))
     = map (\<lambda>a. percentage a / 100 * (currentAssets wealthData - currentLiabilities wealthData))
         (snd (calculateRetirementProjection wealthData))"
  by (cases "WealthData.riskTolerance wealthData")
    (simp_all add: calculateRetirementProjection_def allocation_of_def Let_def)

theorem allocation_by_risk_tolerance_witness:
  "snd (calculateRetirementProjection default_wealthData)
     = [\<lparr> category = ''Stocks'', percentage = 60, value = 120000 \<rparr>,
        \<lparr> category = ''Bonds'', percentage = 30, value = 60000 \<rparr>,
        \<lparr> category = ''Real Estate'', percentage = 10, value = 20000 \<rparr>]
   \<and> sum_list (map percentage (snd (calculateRetirementProjection default_wealthData))) = 100"
proof -
  have "snd (calculateRetirementProjection default_wealthData)
     = [\<lparr> category = ''Stocks'', percentage = 60, value = 120000 \<rparr>,
        \<lparr> category = ''Bonds'', percentage = 30, value = 60000 \<rparr>,
        \<lparr> category = ''Real Estate'', percentage = 10, value = 20000 \<rparr>]"
    by (simp add: calculateRetirementProjection_def allocation_of_def Let_def default_wealthData_def)
  with allocation_by_risk_tolerance [of default_wealthData] show ?thesis
    by (simp only:) simp
qed


end
